theory Spec2Isabelle
  imports Main "HOL-Library.AList" "HOL-Library.Sublist" "HOL-Library.Char_ord"
    "HOL-Library.List_Lexorder" "HOL-Library.Product_Lexorder"
begin

section \<open>Values, errors and filters\<close>

text \<open>
  JavaScript values as far as \<^verbatim>\<open>db.ts\<close> handles them: documents, triple values,
  session variables and filter operands. Numbers are modelled as integers; a timestamp
  \<^verbatim>\<open>[tick, clientId]\<close> and a timestamped leaf \<^verbatim>\<open>[value, timestamp]\<close> are arrays,
  as in the source. A property that does not exist is the \<open>None\<close> of an option; a
  property that exists and holds \<^verbatim>\<open>undefined\<close> holds \<open>JUndefined\<close>. \<open>JInherited name\<close>
  is the member \<open>name\<close> that every plain object inherits from \<^verbatim>\<open>Object.prototype\<close>: a
  built-in function, or for \<^verbatim>\<open>__proto__\<close> the prototype object itself.
\<close>

datatype json =
    JUndefined
  | JNull
  | JBool bool
  | JNum int
  | JStr string
  | JArr "json list"
  | JObj "(string \<times> json) list"
  | JInherited string

text \<open>JavaScript's \<^verbatim>\<open>!v\<close>: functions and objects are truthy.\<close>

fun falsy :: "json \<Rightarrow> bool" where
  "falsy JUndefined = True"
| "falsy JNull = True"
| "falsy (JBool b) = (\<not> b)"
| "falsy (JNum n) = (n = 0)"
| "falsy (JStr s) = (s = [])"
| "falsy (JArr xs) = False"
| "falsy (JObj kvs) = False"
| "falsy (JInherited name) = False"

text \<open>
  The error classes \<^verbatim>\<open>db.ts\<close> imports from \<^verbatim>\<open>./errors\<close>, each with the
  arguments of its constructor call, and JavaScript's plain \<^verbatim>\<open>Error\<close> with its message.
\<close>

datatype error =
    EntityNotFoundError string string string
  | InvalidEntityIdError string string
  | InvalidInternalEntityIdError string
  | InvalidMigrationOperationError string
  | SessionVariableNotFoundError string
  | WriteRuleError string
  | Error string

text \<open>
  A \<^verbatim>\<open>QueryWhere\<close> is a list of filters: a filter statement is the array
  \<^verbatim>\<open>[path, op, value]\<close>, anything that is not an array is a filter group with its
  \<^verbatim>\<open>mod\<close> and its \<^verbatim>\<open>filters\<close>.
\<close>

datatype Filter =
    FilterStatement string string json
  | FilterGroup string "Filter list"

type_synonym QueryWhere = "Filter list"

text \<open>
  A \<^verbatim>\<open>Record<string, any>\<close> of variables is the association list of its own enumerable
  properties, the ones an object spread copies; \<open>map_of\<close> finds the first binding of a
  name.
\<close>

type_synonym Variables = "(string \<times> json) list"

text \<open>
  \<^verbatim>\<open>variables[name]\<close>. The object that \<^verbatim>\<open>replaceVariablesInQuery\<close> hands over is an
  object literal, so its prototype is \<^verbatim>\<open>Object.prototype\<close>: the lookup finds an own
  property first and otherwise a member of the prototype, and is \<^verbatim>\<open>undefined\<close> (here
  \<open>None\<close>) for every other name. \<open>objectPrototype\<close> lists the property names of
  \<^verbatim>\<open>Object.prototype\<close> as the language defines them.
\<close>

definition objectPrototype :: "string list" where
  "objectPrototype =
     [''constructor'', ''hasOwnProperty'', ''isPrototypeOf'', ''propertyIsEnumerable'',
      ''toLocaleString'', ''toString'', ''valueOf'', ''__defineGetter__'',
      ''__defineSetter__'', ''__lookupGetter__'', ''__lookupSetter__'', ''__proto__'']"

definition propertyOf :: "Variables \<Rightarrow> string \<Rightarrow> json option" where
  "propertyOf variables name =
     (case map_of variables name of
        Some v \<Rightarrow> Some v
      | None \<Rightarrow> if name \<in> set objectPrototype then Some (JInherited name) else None)"

text \<open>
  \<^verbatim>\<open>replaceVariablesInFilterStatements(statements, variables)\<close>: the callback of
  \<^verbatim>\<open>statements.map\<close> is \<open>replaceVariablesInFilter\<close>; a \<^verbatim>\<open>throw\<close> inside the callback
  ends the whole map, so the first failing filter in document order decides the error.
\<close>

fun replaceVariablesInFilterStatements :: "QueryWhere \<Rightarrow> Variables \<Rightarrow> error + QueryWhere"
  and replaceVariablesInFilter :: "Filter \<Rightarrow> Variables \<Rightarrow> error + Filter" where
  "replaceVariablesInFilterStatements [] variables = Inr []"
| "replaceVariablesInFilterStatements (f # fs) variables =
     (case replaceVariablesInFilter f variables of
        Inl e \<Rightarrow> Inl e
      | Inr f' \<Rightarrow>
          (case replaceVariablesInFilterStatements fs variables of
             Inl e \<Rightarrow> Inl e
           | Inr fs' \<Rightarrow> Inr (f' # fs')))"
| "replaceVariablesInFilter (FilterGroup m fs) variables =
     (case replaceVariablesInFilterStatements fs variables of
        Inl e \<Rightarrow> Inl e
      | Inr fs' \<Rightarrow> Inr (FilterGroup m fs'))"
| "replaceVariablesInFilter (FilterStatement p opr v) variables =
     (case v of
        JStr s \<Rightarrow>
          (case s of
             [] \<Rightarrow> Inr (FilterStatement p opr v)
           | c # name \<Rightarrow>
               if c \<noteq> CHR ''$'' then Inr (FilterStatement p opr v)
               else
                 (case propertyOf variables name of
                    None \<Rightarrow> Inl (SessionVariableNotFoundError s)
                  | Some varValue \<Rightarrow>
                      if falsy varValue then Inl (SessionVariableNotFoundError s)
                      else Inr (FilterStatement p opr varValue)))
      | _ \<Rightarrow> Inr (FilterStatement p opr v))"

text \<open>The variable names a list of filters refers to, in the order the map visits them.\<close>

fun variableRefs :: "QueryWhere \<Rightarrow> string list"
  and variableRefsIn :: "Filter \<Rightarrow> string list" where
  "variableRefs [] = []"
| "variableRefs (f # fs) = variableRefsIn f @ variableRefs fs"
| "variableRefsIn (FilterGroup m fs) = variableRefs fs"
| "variableRefsIn (FilterStatement p opr (JStr (c # name))) =
     (if c = CHR ''$'' then [name] else [])"
| "variableRefsIn (FilterStatement p opr v) = []"

text \<open>A variable reference resolves when the lookup of its name gives a truthy value.\<close>

definition resolves :: "Variables \<Rightarrow> string \<Rightarrow> bool" where
  "resolves variables name =
     (case propertyOf variables name of None \<Rightarrow> False | Some varValue \<Rightarrow> \<not> falsy varValue)"

text \<open>The filters with every variable reference replaced by the variable's value.\<close>

fun substituted :: "Variables \<Rightarrow> QueryWhere \<Rightarrow> QueryWhere"
  and substitutedIn :: "Variables \<Rightarrow> Filter \<Rightarrow> Filter" where
  "substituted variables [] = []"
| "substituted variables (f # fs) = substitutedIn variables f # substituted variables fs"
| "substitutedIn variables (FilterGroup m fs) = FilterGroup m (substituted variables fs)"
| "substitutedIn variables (FilterStatement p opr (JStr (c # name))) =
     (if c = CHR ''$''
      then (case propertyOf variables name of
              None \<Rightarrow> FilterStatement p opr (JStr (c # name))
            | Some varValue \<Rightarrow> FilterStatement p opr varValue)
      else FilterStatement p opr (JStr (c # name)))"
| "substitutedIn variables (FilterStatement p opr v) = FilterStatement p opr v"


section \<open>Identifiers\<close>

text \<open>
  \<^verbatim>\<open>ID_SEPARATOR\<close>, \<^verbatim>\<open>validateExternalId\<close> (\<^verbatim>\<open>String(id).includes('#')\<close>; the
  result \<open>None\<close> is \<^verbatim>\<open>undefined\<close>) and \<^verbatim>\<open>appendCollectionToId\<close>.
\<close>

definition ID_SEPARATOR :: char where
  "ID_SEPARATOR = CHR ''#''"

definition validateExternalId :: "string \<Rightarrow> error option" where
  "validateExternalId i =
     (if ID_SEPARATOR \<in> set i
      then Some (InvalidEntityIdError i (''Id cannot include '' @ [ID_SEPARATOR] @ ''.''))
      else None)"

definition appendCollectionToId :: "string \<Rightarrow> string \<Rightarrow> string" where
  "appendCollectionToId collectionName i = collectionName @ [ID_SEPARATOR] @ i"

section \<open>Strings\<close>

text \<open>
  JavaScript's \<^verbatim>\<open>s.split(c)\<close> for a one-character separator (the empty string splits
  into one empty part), and \<^verbatim>\<open>String(n)\<close> for a natural number and an integer.
\<close>

fun split :: "char \<Rightarrow> string \<Rightarrow> string list" where
  "split c [] = [[]]"
| "split c (x # xs) =
     (if x = c then [] # split c xs
      else (case split c xs of
              [] \<Rightarrow> [[x]]
            | w # ws \<Rightarrow> (x # w) # ws))"

definition digit :: "nat \<Rightarrow> char" where
  "digit d = char_of (48 + d)"

function stringOfNat :: "nat \<Rightarrow> string" where
  "stringOfNat n = (if n < 10 then [digit n] else stringOfNat (n div 10) @ [digit (n mod 10)])"
  by pat_completeness auto
termination
  by (relation "measure id") auto

definition stringOfInt :: "int \<Rightarrow> string" where
  "stringOfInt i = (if i < 0 then CHR ''-'' # stringOfNat (nat (- i)) else stringOfNat (nat i))"

text \<open>
  \<^verbatim>\<open>String(v)\<close>, which a template literal applies: an array joins the strings of its
  elements with commas (\<^verbatim>\<open>null\<close> and \<^verbatim>\<open>undefined\<close> as the empty string), an object
  is \<^verbatim>\<open>[object Object]\<close>, a built-in function is its native-code text as V8 prints
  it (the \<^verbatim>\<open>constructor\<close> of the prototype is the function \<^verbatim>\<open>Object\<close>).
\<close>

fun toString :: "json \<Rightarrow> string"
  and joinElements :: "json list \<Rightarrow> string" where
  "toString JUndefined = ''undefined''"
| "toString JNull = ''null''"
| "toString (JBool b) = (if b then ''true'' else ''false'')"
| "toString (JNum n) = stringOfInt n"
| "toString (JStr s) = s"
| "toString (JArr xs) = joinElements xs"
| "toString (JObj kvs) = ''[object Object]''"
| "toString (JInherited name) =
     (if name = ''__proto__'' then ''[object Object]''
      else ''function '' @ (if name = ''constructor'' then ''Object'' else name)
             @ ''() { [native code] }'')"
| "joinElements [] = []"
| "joinElements [x] = (if x = JNull \<or> x = JUndefined then [] else toString x)"
| "joinElements (x # y # ys) =
     (if x = JNull \<or> x = JUndefined then [] else toString x) @ '','' @ joinElements (y # ys)"

section \<open>The triple store\<close>

text \<open>
  The module \<^verbatim>\<open>./triple-store\<close> is not among the sources at hand; \<^verbatim>\<open>db.ts\<close> uses its
  types \<^verbatim>\<open>AttributeItem\<close> (a string or a number), \<^verbatim>\<open>EAV\<close> (a metadata tuple
  \<^verbatim>\<open>[entity, attribute, value]\<close>) and \<^verbatim>\<open>TripleRow\<close>, and the classes
  \<^verbatim>\<open>TripleStore\<close> and \<^verbatim>\<open>TripleStoreTransaction\<close>. The value of a metadata tuple is
  a JavaScript value or, for the \<^verbatim>\<open>filter\<close> of a rule, a \<^verbatim>\<open>QueryWhere\<close>.
\<close>

datatype AttributeItem = S string | N nat

type_synonym Attribute = "AttributeItem list"
type_synonym Timestamp = "nat \<times> string"

datatype TupleValue = TJson json | TWhere QueryWhere

type_synonym EAV = "string \<times> Attribute \<times> TupleValue"

text \<open>
  Modelled from the spec: a triple \<^verbatim>\<open>(E, A, V, T, expired?)\<close> (section 3). The fields
  are \<^verbatim>\<open>id\<close>, \<^verbatim>\<open>attribute\<close>, \<^verbatim>\<open>value\<close>, \<^verbatim>\<open>timestamp\<close> and \<^verbatim>\<open>expired\<close>; of these
  \<^verbatim>\<open>transformTripleAttribute\<close> reads and writes \<^verbatim>\<open>attribute\<close>.
\<close>

record TripleRow =
  row_id :: string
  attribute :: Attribute
  row_value :: json
  timestamp :: Timestamp
  expired :: bool

text \<open>
  Modelled from the spec: the store keeps the triples of every configured storage scope
  under the scope's key, and the metadata namespace (the \<^verbatim>\<open>_schema\<close> tree) beside them
  (sections 3 and 6); its logical clock issues the commit timestamps
  \<^verbatim>\<open>(tick, clientId)\<close> (section 5).
\<close>

record TripleStore =
  storage :: "(string \<times> TripleRow list) list"
  metadata :: "EAV list"
  clock :: nat
  clientId :: string

text \<open>
  Modelled from the spec: a transaction works on a snapshot of the store and sees its own
  writes; \<^verbatim>\<open>{ read, write }\<close> restricts which storage scopes participate; the triples
  written inside one transaction share a single commit timestamp (sections 5 and 6).
\<close>

record TripleStoreTransaction =
  txStorage :: "(string \<times> TripleRow list) list"
  txMetadata :: "EAV list"
  readScope :: "string list"
  writeScope :: "string list"
  txTimestamp :: Timestamp
  isCanceled :: bool

type_synonym StoreScope = "string list \<times> string list"

definition beginTransaction :: "TripleStore \<Rightarrow> StoreScope option \<Rightarrow> TripleStoreTransaction" where
  "beginTransaction store scope =
     \<lparr> txStorage = storage store,
       txMetadata = metadata store,
       readScope = (case scope of None \<Rightarrow> map fst (storage store) | Some (r, w) \<Rightarrow> r),
       writeScope = (case scope of None \<Rightarrow> map fst (storage store) | Some (r, w) \<Rightarrow> w),
       txTimestamp = (Suc (clock store), clientId store),
       isCanceled = False \<rparr>"

text \<open>
  Modelled from the spec: \<^verbatim>\<open>cancel\<close> marks the transaction; a cancelled transaction
  persists none of its staged writes (section 5).
\<close>

definition TripleStoreTransaction_cancel :: "TripleStoreTransaction \<Rightarrow> TripleStoreTransaction" where
  "TripleStoreTransaction_cancel tx = tx\<lparr>isCanceled := True\<rparr>"

definition TripleStoreTransaction_commit :: "TripleStore \<Rightarrow> TripleStoreTransaction \<Rightarrow> TripleStore" where
  "TripleStoreTransaction_commit store tx =
     (if isCanceled tx then store
      else store\<lparr>storage := txStorage tx, metadata := txMetadata tx,
                 clock := fst (txTimestamp tx)\<rparr>)"

text \<open>
  Modelled from the spec: \<^verbatim>\<open>transact(cb, scope?)\<close> opens a transaction and passes it
  to \<^verbatim>\<open>cb\<close>; on clean return the transaction commits, on throw it is cancelled and the
  exception re-raised (section 5). A callback is a function from the transaction to its
  outcome (\<open>Inl\<close> the exception it throws) and the transaction as it leaves it; the
  result of \<^verbatim>\<open>transact\<close> is the commit timestamp.
\<close>

type_synonym 'tx Callback = "'tx \<Rightarrow> (error + unit) \<times> 'tx"

definition TripleStore_transact ::
  "TripleStore \<Rightarrow> TripleStoreTransaction Callback \<Rightarrow> StoreScope option
     \<Rightarrow> (error + Timestamp) \<times> TripleStore" where
  "TripleStore_transact store callback scope =
     (case callback (beginTransaction store scope) of
        (Inl e, tx) \<Rightarrow> (Inl e, store)
      | (Inr u, tx) \<Rightarrow> (Inr (txTimestamp tx), TripleStoreTransaction_commit store tx))"

subsection \<open>Metadata tuples\<close>

text \<open>
  Modelled from the spec: the metadata namespace holds one value per entity and
  attribute path; \<^verbatim>\<open>readMetadataTuples(entity, attribute)\<close> scans by attribute prefix,
  \<^verbatim>\<open>updateMetadataTuples\<close> upserts and \<^verbatim>\<open>deleteMetadataTuples\<close> removes by entity and
  attribute (sections 3 and 4.7; the comments of \<^verbatim>\<open>renameAttribute\<close> name the two
  writes "delete old attribute tuples" and "upsert new attribute tuples").
\<close>

definition readTuples :: "EAV list \<Rightarrow> string \<Rightarrow> Attribute \<Rightarrow> EAV list" where
  "readTuples md entity attr = filter (\<lambda>(e, a, v). e = entity \<and> prefix attr a) md"

definition upsertTuple :: "EAV \<Rightarrow> EAV list \<Rightarrow> EAV list" where
  "upsertTuple t md =
     (case t of (e, a, v) \<Rightarrow> filter (\<lambda>(e', a', v'). \<not> (e' = e \<and> a' = a)) md @ [(e, a, v)])"

definition upsertTuples :: "EAV list \<Rightarrow> EAV list \<Rightarrow> EAV list" where
  "upsertTuples updates md = fold upsertTuple updates md"

definition deleteTuples :: "(string \<times> Attribute) list \<Rightarrow> EAV list \<Rightarrow> EAV list" where
  "deleteTuples deletes md = filter (\<lambda>(e, a, v). (e, a) \<notin> set deletes) md"

definition readMetadataTuples :: "TripleStoreTransaction \<Rightarrow> string \<Rightarrow> Attribute \<Rightarrow> EAV list" where
  "readMetadataTuples tx entity attr = readTuples (txMetadata tx) entity attr"

definition updateMetadataTuples :: "TripleStoreTransaction \<Rightarrow> EAV list \<Rightarrow> TripleStoreTransaction" where
  "updateMetadataTuples tx updates = tx\<lparr>txMetadata := upsertTuples updates (txMetadata tx)\<rparr>"

definition deleteMetadataTuples ::
  "TripleStoreTransaction \<Rightarrow> (string \<times> Attribute) list \<Rightarrow> TripleStoreTransaction" where
  "deleteMetadataTuples tx deletes = tx\<lparr>txMetadata := deleteTuples deletes (txMetadata tx)\<rparr>"

text \<open>
  Modelled from the spec: \<^verbatim>\<open>updateMetadataTuples\<close> called on the store itself, outside
  any transaction a caller opened, is a write of its own.
\<close>

definition TripleStore_updateMetadataTuples :: "TripleStore \<Rightarrow> EAV list \<Rightarrow> TripleStore" where
  "TripleStore_updateMetadataTuples store updates =
     store\<lparr>metadata := upsertTuples updates (metadata store)\<rparr>"

subsection \<open>Data triples\<close>

text \<open>
  Modelled from the spec: \<^verbatim>\<open>findByAttribute\<close> scans the attribute index by prefix
  over the storage scopes the transaction reads; \<^verbatim>\<open>insertTriples\<close> and
  \<^verbatim>\<open>deleteTriples\<close> add and remove triples in the scopes it writes; \<^verbatim>\<open>setValue\<close>
  writes one triple at the commit timestamp; \<^verbatim>\<open>withScope\<close> is the same transaction
  restricted to other scopes (sections 3, 4.2, 4.6 and 6).
\<close>

definition scopedTriples :: "(string \<times> TripleRow list) list \<Rightarrow> string list \<Rightarrow> TripleRow list" where
  "scopedTriples st scope = concat (map snd (filter (\<lambda>(k, ts). k \<in> set scope) st))"

definition findByAttribute :: "TripleStoreTransaction \<Rightarrow> Attribute \<Rightarrow> TripleRow list" where
  "findByAttribute tx attr =
     filter (\<lambda>t. prefix attr (attribute t)) (scopedTriples (txStorage tx) (readScope tx))"

definition insertTriples :: "TripleStoreTransaction \<Rightarrow> TripleRow list \<Rightarrow> TripleStoreTransaction" where
  "insertTriples tx triples =
     tx\<lparr>txStorage :=
          map (\<lambda>(k, ts). if k \<in> set (writeScope tx)
                          then (k, ts @ filter (\<lambda>t. t \<notin> set ts) (remdups triples))
                          else (k, ts))
            (txStorage tx)\<rparr>"

definition deleteTriples :: "TripleStoreTransaction \<Rightarrow> TripleRow list \<Rightarrow> TripleStoreTransaction" where
  "deleteTriples tx triples =
     tx\<lparr>txStorage :=
          map (\<lambda>(k, ts). if k \<in> set (writeScope tx)
                          then (k, filter (\<lambda>t. t \<notin> set triples) ts)
                          else (k, ts))
            (txStorage tx)\<rparr>"

definition setValue :: "TripleStoreTransaction \<Rightarrow> string \<Rightarrow> Attribute \<Rightarrow> json \<Rightarrow> TripleStoreTransaction" where
  "setValue tx entity attr v =
     insertTriples tx
       [\<lparr>row_id = entity, attribute = attr, row_value = v,
         timestamp = txTimestamp tx, expired = False\<rparr>]"

definition withScope :: "TripleStoreTransaction \<Rightarrow> StoreScope \<Rightarrow> TripleStoreTransaction" where
  "withScope tx scope = tx\<lparr>readScope := fst scope, writeScope := snd scope\<rparr>"

section \<open>The document codec\<close>

text \<open>
  Modelled from the spec (section 4.1; the modules \<^verbatim>\<open>./document\<close> and \<^verbatim>\<open>./schema\<close>
  are not among the sources at hand). Plain to triples: every leaf at path \<open>p\<close> of the
  document becomes the triple \<^verbatim>\<open>(E, [collectionName, ...p], value, T, false)\<close>, a record
  is walked without a triple of its own, and the marker triple
  \<^verbatim>\<open>(E, ["_collection"], collectionName, T, false)\<close> is always written.
\<close>

fun leaves :: "json \<Rightarrow> (string list \<times> json) list"
  and entryLeaves :: "(string \<times> json) list \<Rightarrow> (string list \<times> json) list" where
  "leaves (JObj kvs) = entryLeaves kvs"
| "leaves v = [([], v)]"
| "entryLeaves [] = []"
| "entryLeaves ((k, v) # kvs) = map (\<lambda>(p, x). (k # p, x)) (leaves v) @ entryLeaves kvs"

definition documentTriples :: "string \<Rightarrow> string \<Rightarrow> Timestamp \<Rightarrow> json \<Rightarrow> TripleRow list" where
  "documentTriples entity collectionName ts doc =
     \<lparr>row_id = entity, attribute = [S ''_collection''], row_value = JStr collectionName,
      timestamp = ts, expired = False\<rparr>
     # map (\<lambda>(p, v). \<lparr>row_id = entity, attribute = S collectionName # map S p, row_value = v,
                        timestamp = ts, expired = False\<rparr>)
         (leaves doc)"

definition Document_insert ::
  "TripleStoreTransaction \<Rightarrow> string \<Rightarrow> json \<Rightarrow> string \<Rightarrow> TripleStoreTransaction" where
  "Document_insert tx entity doc collectionName =
     insertTriples tx (documentTriples entity collectionName (txTimestamp tx) doc)"

text \<open>
  Modelled from the spec: triples to timestamped object. The non-expired triples of one
  entity are reduced into a nested object whose leaves are \<^verbatim>\<open>[value, timestamp]\<close>; at
  every path the triple with the greatest timestamp gives the value (triples are taken
  in the order of their ticks, a later one overwriting an earlier one). The marker
  triple is only for discovering collections. An entity without triples is \<^verbatim>\<open>null\<close>.
\<close>

fun setPointer :: "string list \<Rightarrow> json \<Rightarrow> json \<Rightarrow> json" where
  "setPointer [] v obj = v"
| "setPointer (k # ks) v (JObj kvs) =
     JObj (AList.update k
            (setPointer ks v (case map_of kvs k of Some child \<Rightarrow> child | None \<Rightarrow> JObj []))
            kvs)"
| "setPointer (k # ks) v other = JObj [(k, setPointer ks v (JObj []))]"

fun itemKey :: "AttributeItem \<Rightarrow> string" where
  "itemKey (S s) = s"
| "itemKey (N n) = stringOfNat n"

definition timestampedLeaf :: "TripleRow \<Rightarrow> json" where
  "timestampedLeaf t =
     JArr [row_value t, JArr [JNum (int (fst (timestamp t))), JStr (snd (timestamp t))]]"

definition triplesToEntity :: "TripleRow list \<Rightarrow> json" where
  "triplesToEntity triples =
     fold (\<lambda>t obj. setPointer (map itemKey (drop 1 (attribute t))) (timestampedLeaf t) obj)
       (sort_key (\<lambda>t. fst (timestamp t))
          (filter (\<lambda>t. attribute t \<noteq> [S ''_collection'']) triples))
       (JObj [])"

definition entityOf :: "TripleRow list \<Rightarrow> string \<Rightarrow> json option" where
  "entityOf triples entity =
     (case filter (\<lambda>t. row_id t = entity \<and> \<not> expired t) triples of
        [] \<Rightarrow> None
      | t # ts \<Rightarrow> Some (triplesToEntity (t # ts)))"

definition getEntity :: "TripleStoreTransaction \<Rightarrow> string \<Rightarrow> json option" where
  "getEntity tx entity = entityOf (scopedTriples (txStorage tx) (readScope tx)) entity"

definition TripleStore_getEntity :: "TripleStore \<Rightarrow> string \<Rightarrow> json option" where
  "TripleStore_getEntity store entity =
     entityOf (scopedTriples (storage store) (map fst (storage store))) entity"

text \<open>
  Modelled from the spec: timestamped to plain drops the timestamps, and the way back
  pairs every leaf with a timestamp (\<^verbatim>\<open>objectToTimestampedObject\<close> is called on
  documents that are not stored yet, so the timestamp is the clock's origin). Sets are
  not modelled: no claim settled here reads a set.
\<close>

fun timestampedObjectToPlainObject :: "json \<Rightarrow> json"
  and plainEntries :: "(string \<times> json) list \<Rightarrow> (string \<times> json) list" where
  "timestampedObjectToPlainObject (JObj kvs) = JObj (plainEntries kvs)"
| "timestampedObjectToPlainObject (JArr [v, ts]) = v"
| "timestampedObjectToPlainObject v = v"
| "plainEntries [] = []"
| "plainEntries ((k, v) # kvs) = (k, timestampedObjectToPlainObject v) # plainEntries kvs"

fun objectToTimestampedObject :: "json \<Rightarrow> json"
  and timestampedEntries :: "(string \<times> json) list \<Rightarrow> (string \<times> json) list" where
  "objectToTimestampedObject (JObj kvs) = JObj (timestampedEntries kvs)"
| "objectToTimestampedObject v = JArr [v, JArr [JNum 0, JStr []]]"
| "timestampedEntries [] = []"
| "timestampedEntries ((k, v) # kvs) = (k, objectToTimestampedObject v) # timestampedEntries kvs"

section \<open>The filter evaluator\<close>

text \<open>
  Modelled from the spec (section 4.3; \<^verbatim>\<open>doesEntityObjMatchWhere\<close> comes from
  \<^verbatim>\<open>./collection-query\<close>, not among the sources at hand): predicates are nested
  boolean trees whose leaves are \<^verbatim>\<open>[path, op, value]\<close>; evaluation against a
  timestamped entity uses the current value at each path, and a missing path compares as
  \<^verbatim>\<open>null\<close>. What each operator computes is not in the sources, so it is the parameter
  \<open>cmp\<close> (operator, value of the entity, operand). A \<^verbatim>\<open>where\<close> list is a conjunction.
\<close>

fun getPointer :: "string list \<Rightarrow> json \<Rightarrow> json option" where
  "getPointer [] v = Some v"
| "getPointer (k # ks) (JObj kvs) =
     (case map_of kvs k of None \<Rightarrow> None | Some child \<Rightarrow> getPointer ks child)"
| "getPointer (k # ks) other = None"

definition currentValue :: "json \<Rightarrow> string \<Rightarrow> json" where
  "currentValue entity path =
     (case getPointer (split CHR ''.'' path) entity of
        Some (JArr [v, ts]) \<Rightarrow> v
      | _ \<Rightarrow> JNull)"

type_synonym Comparison = "string \<Rightarrow> json \<Rightarrow> json \<Rightarrow> bool"

fun satisfiesAll :: "Comparison \<Rightarrow> json \<Rightarrow> QueryWhere \<Rightarrow> bool"
  and satisfiesSome :: "Comparison \<Rightarrow> json \<Rightarrow> QueryWhere \<Rightarrow> bool"
  and satisfiesFilter :: "Comparison \<Rightarrow> json \<Rightarrow> Filter \<Rightarrow> bool" where
  "satisfiesAll cmp entity [] = True"
| "satisfiesAll cmp entity (f # fs) =
     (satisfiesFilter cmp entity f \<and> satisfiesAll cmp entity fs)"
| "satisfiesSome cmp entity [] = False"
| "satisfiesSome cmp entity (f # fs) =
     (satisfiesFilter cmp entity f \<or> satisfiesSome cmp entity fs)"
| "satisfiesFilter cmp entity (FilterStatement path opr v) =
     cmp opr (currentValue entity path) v"
| "satisfiesFilter cmp entity (FilterGroup m fs) =
     (if m = ''or'' then satisfiesSome cmp entity fs else satisfiesAll cmp entity fs)"

section \<open>The schema\<close>

text \<open>
  \<^verbatim>\<open>Rule\<close>, \<^verbatim>\<open>CollectionRules\<close> and \<^verbatim>\<open>CollectionAttribute\<close> as \<^verbatim>\<open>db.ts\<close> declares
  them (the fields \<^verbatim>\<open>filter\<close>, \<^verbatim>\<open>read\<close>, \<^verbatim>\<open>write\<close> and \<^verbatim>\<open>type\<close> carry a prefix here).
  An optional field is an option.
\<close>

record Rule =
  rule_filter :: QueryWhere
  description :: "string option"

record CollectionRules =
  rules_read :: "Rule list option"
  rules_write :: "Rule list option"

record CollectionAttribute =
  attr_type :: string

text \<open>
  Modelled from the spec: the schema lives in the \<^verbatim>\<open>_schema\<close> namespace as ordinary
  tuples and is read back through the same store (section 3); a store without such
  tuples has no schema. The layout is the one \<^verbatim>\<open>createCollection\<close>, \<^verbatim>\<open>addAttribute\<close>
  and \<^verbatim>\<open>migrate\<close> write: \<^verbatim>\<open>['version']\<close>,
  \<^verbatim>\<open>['collections', name, 'attributes', path, 'type']\<close> and
  \<^verbatim>\<open>['collections', name, 'rules', ruleType, index, key]\<close>. A \<^verbatim>\<open>Model\<close> is what
  \<^verbatim>\<open>readSchema().collections[name]\<close> yields: \<^verbatim>\<open>db.ts\<close> reads its \<^verbatim>\<open>rules\<close> and hands
  it to \<^verbatim>\<open>getSchemaFromPath\<close> and \<^verbatim>\<open>doesEntityObjMatchWhere\<close>.
\<close>

record Model =
  model_attributes :: "(string \<times> CollectionAttribute) list"
  model_rules :: "CollectionRules option"

record StoreSchema =
  version :: "int option"
  collections :: "(string \<rightharpoonup> Model) option"

definition tupleAt :: "EAV list \<Rightarrow> Attribute \<Rightarrow> TupleValue option" where
  "tupleAt md attr = map_of (map (\<lambda>(e, a, v). (a, v)) (readTuples md ''_schema'' attr)) attr"

fun ruleIndex :: "Attribute \<Rightarrow> nat option" where
  "ruleIndex (c0 # c1 # c2 # c3 # N n # rest) = Some n"
| "ruleIndex a = None"

definition ruleAt :: "EAV list \<Rightarrow> string \<Rightarrow> string \<Rightarrow> nat \<Rightarrow> Rule" where
  "ruleAt md c ruleType i =
     \<lparr> rule_filter =
         (case tupleAt md [S ''collections'', S c, S ''rules'', S ruleType, N i, S ''filter''] of
            Some (TWhere w) \<Rightarrow> w
          | _ \<Rightarrow> []),
       description =
         (case tupleAt md [S ''collections'', S c, S ''rules'', S ruleType, N i, S ''description''] of
            Some (TJson (JStr d)) \<Rightarrow> Some d
          | _ \<Rightarrow> None) \<rparr>"

definition rulesOfType :: "EAV list \<Rightarrow> string \<Rightarrow> string \<Rightarrow> Rule list option" where
  "rulesOfType md c ruleType =
     (case readTuples md ''_schema'' [S ''collections'', S c, S ''rules'', S ruleType] of
        [] \<Rightarrow> None
      | t # ts \<Rightarrow>
          Some (map (ruleAt md c ruleType)
                  [0 ..< fold (\<lambda>(e, a, v) m. case ruleIndex a of None \<Rightarrow> m | Some n \<Rightarrow> max m (Suc n))
                           (t # ts) 0]))"

fun attributeOfTuple :: "EAV \<Rightarrow> (string \<times> CollectionAttribute) option" where
  "attributeOfTuple (e, [c0, c1, c2, S path, k], TJson (JStr t)) =
     (if k = S ''type'' then Some (path, \<lparr>attr_type = t\<rparr>) else None)"
| "attributeOfTuple other = None"

definition modelOf :: "EAV list \<Rightarrow> string \<Rightarrow> Model option" where
  "modelOf md c =
     (if readTuples md ''_schema'' [S ''collections'', S c] = [] then None
      else Some
        \<lparr> model_attributes =
            List.map_filter attributeOfTuple
              (readTuples md ''_schema'' [S ''collections'', S c, S ''attributes'']),
          model_rules =
            (if readTuples md ''_schema'' [S ''collections'', S c, S ''rules''] = [] then None
             else Some \<lparr> rules_read = rulesOfType md c ''read'',
                         rules_write = rulesOfType md c ''write'' \<rparr>) \<rparr>)"

definition readSchemaFrom :: "EAV list \<Rightarrow> StoreSchema option" where
  "readSchemaFrom md =
     (if readTuples md ''_schema'' [] = [] then None
      else Some
        \<lparr> version = (case tupleAt md [S ''version''] of
                       Some (TJson (JNum v)) \<Rightarrow> Some v
                     | _ \<Rightarrow> None),
          collections = (if readTuples md ''_schema'' [S ''collections''] = [] then None
                         else Some (modelOf md)) \<rparr>)"

definition readSchema :: "TripleStoreTransaction \<Rightarrow> StoreSchema option" where
  "readSchema tx = readSchemaFrom (txMetadata tx)"

definition TripleStore_readSchema :: "TripleStore \<Rightarrow> StoreSchema option" where
  "TripleStore_readSchema store = readSchemaFrom (metadata store)"

definition doesEntityObjMatchWhere :: "Comparison \<Rightarrow> json \<Rightarrow> QueryWhere \<Rightarrow> Model option \<Rightarrow> bool" where
  "doesEntityObjMatchWhere cmp entity wh schema = satisfiesAll cmp entity wh"

section \<open>Queries and transactions of the database\<close>

text \<open>
  The fields of a \<^verbatim>\<open>CollectionQuery\<close> that \<^verbatim>\<open>db.ts\<close> reads. \<^verbatim>\<open>DBTransaction\<close> is the
  class with its two constructor arguments; \<^verbatim>\<open>DB\<close> is the class with its triple store
  and its variables (\<^verbatim>\<open>ensureMigrated\<close> is taken as resolved).
\<close>

record CollectionQuery =
  collectionName :: "string option"
  query_where :: QueryWhere
  query_vars :: "Variables option"

record DBTransaction =
  storeTx :: TripleStoreTransaction
  tx_variables :: "Variables option"

record DB =
  tripleStore :: TripleStore
  db_variables :: Variables

definition emptyModel :: Model where
  "emptyModel = \<lparr> model_attributes = [], model_rules = None \<rparr>"

text \<open>
  \<^verbatim>\<open>getCollectionSchema\<close>: \<^verbatim>\<open>undefined\<close> without collections, otherwise the spread
  \<^verbatim>\<open>{ ...collections[collectionName] }\<close>, which is the empty object for an unknown
  collection.
\<close>

definition collectionSchemaOf :: "StoreSchema option \<Rightarrow> string \<Rightarrow> Model option" where
  "collectionSchemaOf schema c =
     (case schema of
        None \<Rightarrow> None
      | Some sch \<Rightarrow>
          (case collections sch of
             None \<Rightarrow> None
           | Some cs \<Rightarrow> Some (case cs c of None \<Rightarrow> emptyModel | Some m \<Rightarrow> m)))"

definition DBTransaction_getSchema :: "DBTransaction \<Rightarrow> StoreSchema option" where
  "DBTransaction_getSchema tx = readSchema (storeTx tx)"

definition DBTransaction_getCollectionSchema :: "DBTransaction \<Rightarrow> string \<Rightarrow> Model option" where
  "DBTransaction_getCollectionSchema tx c = collectionSchemaOf (DBTransaction_getSchema tx) c"

definition DB_getCollectionSchema :: "DB \<Rightarrow> string \<Rightarrow> Model option" where
  "DB_getCollectionSchema db c = collectionSchemaOf (TripleStore_readSchema (tripleStore db)) c"

definition DBTransaction_commit :: "TripleStore \<Rightarrow> DBTransaction \<Rightarrow> TripleStore" where
  "DBTransaction_commit store tx = TripleStoreTransaction_commit store (storeTx tx)"

definition DBTransaction_cancel :: "DBTransaction \<Rightarrow> DBTransaction" where
  "DBTransaction_cancel tx = tx\<lparr>storeTx := TripleStoreTransaction_cancel (storeTx tx)\<rparr>"

text \<open>
  \<^verbatim>\<open>replaceVariablesInQuery\<close>, the same in both classes: the variables are
  \<^verbatim>\<open>{ ...(this.variables ?? {}), ...(query.vars ?? {}) }\<close>, so a variable of the query
  comes before one of the same name of the database.
\<close>

definition replaceVariablesInQuery :: "Variables option \<Rightarrow> CollectionQuery \<Rightarrow> error + CollectionQuery" where
  "replaceVariablesInQuery this_variables query =
     (case replaceVariablesInFilterStatements (query_where query)
             ((case query_vars query of None \<Rightarrow> [] | Some vs \<Rightarrow> vs)
                @ (case this_variables of None \<Rightarrow> [] | Some vs \<Rightarrow> vs)) of
        Inl e \<Rightarrow> Inl e
      | Inr wh \<Rightarrow> Inr (query\<lparr>query_where := wh\<rparr>))"

text \<open>\<^verbatim>\<open>schema?.rules?.read\<close> and \<^verbatim>\<open>schema?.rules?.write\<close>.\<close>

definition readRulesOf :: "Model option \<Rightarrow> Rule list option" where
  "readRulesOf schema =
     (case schema of
        None \<Rightarrow> None
      | Some m \<Rightarrow> (case model_rules m of None \<Rightarrow> None | Some r \<Rightarrow> rules_read r))"

definition writeRulesOf :: "Model option \<Rightarrow> Rule list option" where
  "writeRulesOf schema =
     (case schema of
        None \<Rightarrow> None
      | Some m \<Rightarrow> (case model_rules m of None \<Rightarrow> None | Some r \<Rightarrow> rules_write r))"

text \<open>
  \<^verbatim>\<open>DB.transact\<close>. \<open>transactCallback\<close> is the function it hands to the store's
  \<^verbatim>\<open>transact\<close>: it wraps the store's transaction into a \<^verbatim>\<open>DBTransaction\<close> with the
  variables of the database and runs the callback on it; what the callback throws is
  caught, the transaction is cancelled and the same exception is thrown again.
\<close>

definition transactCallback :: "DB \<Rightarrow> DBTransaction Callback \<Rightarrow> TripleStoreTransaction Callback" where
  "transactCallback db callback tripTx =
     (case callback \<lparr>storeTx = tripTx, tx_variables = Some (db_variables db)\<rparr> of
        (Inl e, tx) \<Rightarrow> (Inl e, storeTx (DBTransaction_cancel tx))
      | (Inr u, tx) \<Rightarrow> (Inr u, storeTx tx))"

definition DB_transact ::
  "DB \<Rightarrow> DBTransaction Callback \<Rightarrow> StoreScope option \<Rightarrow> (error + Timestamp) \<times> DB" where
  "DB_transact db callback storeScope =
     (case TripleStore_transact (tripleStore db) (transactCallback db callback) storeScope of
        (r, store) \<Rightarrow> (r, db\<lparr>tripleStore := store\<rparr>))"

text \<open>
  \<^verbatim>\<open>addReadRulesToQuery\<close>, and the query that \<^verbatim>\<open>DB.fetch\<close>, \<^verbatim>\<open>DB.subscribe\<close> and
  \<^verbatim>\<open>DB.subscribeTriples\<close> hand to \<^verbatim>\<open>fetch\<close>, \<^verbatim>\<open>subscribe\<close> and \<^verbatim>\<open>subscribeTriples\<close>
  of \<^verbatim>\<open>./collection-query\<close> (not among the sources at hand): the read rules of the
  collection are appended when there is a schema, then the variables are replaced. An
  array of read rules is truthy also when it is empty. A query without a collection name
  indexes the collections with \<^verbatim>\<open>undefined\<close>, the property name \<^verbatim>\<open>"undefined"\<close>.
\<close>

definition addReadRulesToQuery :: "CollectionQuery \<Rightarrow> Model \<Rightarrow> CollectionQuery" where
  "addReadRulesToQuery query schema =
     (case readRulesOf (Some schema) of
        Some readRules \<Rightarrow>
          query\<lparr>query_where := query_where query @ concat (map rule_filter readRules)\<rparr>
      | None \<Rightarrow> query)"

definition DB_fetchQuery :: "DB \<Rightarrow> CollectionQuery \<Rightarrow> error + CollectionQuery" where
  "DB_fetchQuery db query =
     replaceVariablesInQuery (Some (db_variables db))
       (case DB_getCollectionSchema db
               (case collectionName query of None \<Rightarrow> ''undefined'' | Some c \<Rightarrow> c) of
          None \<Rightarrow> query
        | Some schema \<Rightarrow> addReadRulesToQuery query schema)"

section \<open>Reading and writing documents\<close>

text \<open>
  \<^verbatim>\<open>fetchById\<close>, in \<^verbatim>\<open>DBTransaction\<close> and in \<^verbatim>\<open>DB\<close>. The result \<open>Inr None\<close> is
  \<^verbatim>\<open>null\<close>. An array of read rules is truthy also when it is empty, so
  \<^verbatim>\<open>entity && readRules\<close> holds whenever the schema has read rules.
\<close>

definition fetchEntity ::
  "Comparison \<Rightarrow> Variables option \<Rightarrow> Model option \<Rightarrow> json option \<Rightarrow> error + json option" where
  "fetchEntity cmp this_variables schema entity =
     (case entity of
        None \<Rightarrow> Inr None
      | Some ent \<Rightarrow>
          (case readRulesOf schema of
             Some readRules \<Rightarrow>
               (case replaceVariablesInQuery this_variables
                       \<lparr>collectionName = None,
                        query_where = concat (map rule_filter readRules),
                        query_vars = None\<rparr> of
                  Inl e \<Rightarrow> Inl e
                | Inr query \<Rightarrow>
                    if doesEntityObjMatchWhere cmp ent (query_where query) schema
                    then Inr (Some ent)
                    else Inr None)
           | None \<Rightarrow> Inr (Some (timestampedObjectToPlainObject ent))))"

definition DBTransaction_fetchById ::
  "Comparison \<Rightarrow> DBTransaction \<Rightarrow> string \<Rightarrow> string \<Rightarrow> error + json option" where
  "DBTransaction_fetchById cmp tx c i =
     fetchEntity cmp (tx_variables tx) (DBTransaction_getCollectionSchema tx c)
       (getEntity (storeTx tx) (appendCollectionToId c i))"

definition DB_fetchById :: "Comparison \<Rightarrow> DB \<Rightarrow> string \<Rightarrow> string \<Rightarrow> error + json option" where
  "DB_fetchById cmp db c i =
     fetchEntity cmp (Some (db_variables db)) (DB_getCollectionSchema db c)
       (TripleStore_getEntity (tripleStore db) (appendCollectionToId c i))"

text \<open>
  The write-rule check of \<^verbatim>\<open>insert\<close> and \<^verbatim>\<open>update\<close>:
  \<^verbatim>\<open>schema?.rules?.write?.length\<close> is truthy for a non-empty array of rules; the
  filters of the rules are resolved and evaluated on the timestamped document.
\<close>

definition checkWriteRules ::
  "Comparison \<Rightarrow> Variables option \<Rightarrow> Model option \<Rightarrow> json \<Rightarrow> string \<Rightarrow> error + unit" where
  "checkWriteRules cmp this_variables schema doc message =
     (case writeRulesOf schema of
        None \<Rightarrow> Inr ()
      | Some writeRules \<Rightarrow>
          if writeRules = [] then Inr ()
          else
            (case replaceVariablesInQuery this_variables
                    \<lparr>collectionName = None,
                     query_where = concat (map rule_filter writeRules),
                     query_vars = None\<rparr> of
               Inl e \<Rightarrow> Inl e
             | Inr query \<Rightarrow>
                 if doesEntityObjMatchWhere cmp (objectToTimestampedObject doc)
                      (query_where query) schema
                 then Inr ()
                 else Inl (WriteRuleError message)))"

text \<open>
  \<^verbatim>\<open>insert\<close>. \<^verbatim>\<open>if (id)\<close> skips the validation for an omitted and for an empty id;
  \<^verbatim>\<open>id ?? nanoid()\<close> generates an id only for an omitted one. The generator's result is
  the argument \<open>nanoid\<close>.
\<close>

definition validateId :: "string option \<Rightarrow> error option" where
  "validateId i =
     (case i of
        None \<Rightarrow> None
      | Some s \<Rightarrow> if s = [] then None else validateExternalId s)"

definition DBTransaction_insert ::
  "Comparison \<Rightarrow> string \<Rightarrow> DBTransaction \<Rightarrow> string \<Rightarrow> json \<Rightarrow> string option
     \<Rightarrow> (error + unit) \<times> DBTransaction" where
  "DBTransaction_insert cmp nanoid tx c doc i =
     (case validateId i of
        Some validationError \<Rightarrow> (Inl validationError, tx)
      | None \<Rightarrow>
          (case checkWriteRules cmp (tx_variables tx) (DBTransaction_getCollectionSchema tx c) doc
                  ''Insert does not match write rules'' of
             Inl e \<Rightarrow> (Inl e, tx)
           | Inr u \<Rightarrow>
               (Inr (),
                tx\<lparr>storeTx :=
                     Document_insert (storeTx tx)
                       (appendCollectionToId c (case i of None \<Rightarrow> nanoid | Some s \<Rightarrow> s))
                       doc c\<rparr>)))"

definition DB_insert ::
  "Comparison \<Rightarrow> string \<Rightarrow> DB \<Rightarrow> string \<Rightarrow> json \<Rightarrow> string option \<Rightarrow> StoreScope option
     \<Rightarrow> (error + Timestamp) \<times> DB" where
  "DB_insert cmp nanoid db c doc i storeScope =
     (case validateId i of
        Some validationError \<Rightarrow> (Inl validationError, db)
      | None \<Rightarrow>
          (case checkWriteRules cmp (Some (db_variables db)) (DB_getCollectionSchema db c) doc
                  ''Insert does not match write rules'' of
             Inl e \<Rightarrow> (Inl e, db)
           | Inr u \<Rightarrow>
               (case TripleStore_transact (tripleStore db)
                       (\<lambda>tx. (Inr (),
                               Document_insert tx
                                 (appendCollectionToId c (case i of None \<Rightarrow> nanoid | Some s \<Rightarrow> s))
                                 doc c))
                       storeScope of
                  (timestamp', store) \<Rightarrow> (timestamp', db\<lparr>tripleStore := store\<rparr>))))"

subsection \<open>The update proxy\<close>

text \<open>
  \<^verbatim>\<open>createUpdateProxy(changeTracker, entityObj, schema, prefix)\<close>: a proxy is its three
  last arguments, the change tracker (a \<^verbatim>\<open>Map\<close>, which keeps insertion order and
  overwrites in place) is the state its handlers work on. \<^verbatim>\<open>getSchemaFromPath\<close> comes
  from \<^verbatim>\<open>./schema\<close>, not among the sources at hand, and is the parameter \<open>gsp\<close>; its
  result is tested with \<^verbatim>\<open>!propSchema\<close>.
\<close>

type_synonym ChangeTracker = "(string \<times> json) list"
type_synonym SchemaFromPath = "Model \<Rightarrow> string list \<Rightarrow> json option"

record UpdateProxy =
  entityObj :: json
  proxy_schema :: "Model option"
  proxy_prefix :: string

definition createUpdateProxy :: "json \<Rightarrow> Model option \<Rightarrow> string \<Rightarrow> UpdateProxy" where
  "createUpdateProxy entity schema pre =
     \<lparr> entityObj = entity, proxy_schema = schema, proxy_prefix = pre \<rparr>"

definition unrecognized :: "json option \<Rightarrow> bool" where
  "unrecognized propSchema = (case propSchema of None \<Rightarrow> True | Some ps \<Rightarrow> falsy ps)"

text \<open>The \<^verbatim>\<open>set\<close> handler: \<^verbatim>\<open>proxy[prop] = v\<close>.\<close>

definition proxySet ::
  "SchemaFromPath \<Rightarrow> UpdateProxy \<Rightarrow> string \<Rightarrow> json \<Rightarrow> ChangeTracker
     \<Rightarrow> (error + unit) \<times> ChangeTracker" where
  "proxySet gsp proxy property v changeTracker =
     (case proxy_schema proxy of
        None \<Rightarrow> (Inr (), AList.update (proxy_prefix proxy @ ''/'' @ property) v changeTracker)
      | Some schema \<Rightarrow>
          if unrecognized
               (gsp schema (split CHR ''/'' (drop 1 (proxy_prefix proxy @ ''/'' @ property))))
          then (Inl (Error (''Cannot set unrecognized property ''
                             @ (proxy_prefix proxy @ ''/'' @ property) @ '' to '' @ toString v)),
                changeTracker)
          else (Inr (), AList.update (proxy_prefix proxy @ ''/'' @ property) v changeTracker))"

text \<open>
  The mutator handed to \<^verbatim>\<open>update\<close> is any program over the proxy: from the proxy and
  the change tracker to its outcome and the change tracker as it leaves it.
\<close>

type_synonym Updater = "UpdateProxy \<Rightarrow> ChangeTracker \<Rightarrow> (error + unit) \<times> ChangeTracker"

subsection \<open>Update\<close>

text \<open>
  \<^verbatim>\<open>(await this.getSchema())?.collections[collectionName]\<close>: a schema without
  collections makes the index expression throw a \<^verbatim>\<open>TypeError\<close>, a plain error here.
\<close>

definition updateSchemaOf :: "DBTransaction \<Rightarrow> string \<Rightarrow> error + Model option" where
  "updateSchemaOf tx c =
     (case DBTransaction_getSchema tx of
        None \<Rightarrow> Inr None
      | Some sch \<Rightarrow>
          (case collections sch of
             None \<Rightarrow> Inl (Error ''Cannot read properties of undefined'')
           | Some cs \<Rightarrow> Inr (cs c)))"

definition stageChanges ::
  "TripleStoreTransaction \<Rightarrow> string \<Rightarrow> string \<Rightarrow> ChangeTracker \<Rightarrow> TripleStoreTransaction" where
  "stageChanges tx c fullEntityId changes =
     fold (\<lambda>(path, v) t. setValue t fullEntityId (S c # map S (split CHR ''/'' (drop 1 path))) v)
       changes tx"

definition DBTransaction_update ::
  "SchemaFromPath \<Rightarrow> Comparison \<Rightarrow> DBTransaction \<Rightarrow> string \<Rightarrow> string \<Rightarrow> Updater
     \<Rightarrow> (error + unit) \<times> DBTransaction" where
  "DBTransaction_update gsp cmp tx c entityId updater =
     (case updateSchemaOf tx c of
        Inl e \<Rightarrow> (Inl e, tx)
      | Inr schema \<Rightarrow>
     (case DBTransaction_fetchById cmp tx c entityId of
        Inl e \<Rightarrow> (Inl e, tx)
      | Inr None \<Rightarrow>
          (Inl (EntityNotFoundError entityId c
                  ''Cannot perform an update on an entity that doesn't exist''), tx)
      | Inr (Some entity) \<Rightarrow>
     (case updater (createUpdateProxy entity schema []) [] of
        (Inl e, changes) \<Rightarrow> (Inl e, tx)
      | (Inr u, changes) \<Rightarrow>
     (case tx\<lparr>storeTx := stageChanges (storeTx tx) c (appendCollectionToId c entityId) changes\<rparr> of
        staged \<Rightarrow>
     (case writeRulesOf schema of
        None \<Rightarrow> (Inr (), staged)
      | Some writeRules \<Rightarrow>
          if writeRules = [] then (Inr (), staged)
          else
            (case DBTransaction_fetchById cmp staged c entityId of
               Inl e \<Rightarrow> (Inl e, staged)
             | Inr updatedEntity \<Rightarrow>
                 (case checkWriteRules cmp (tx_variables staged) schema
                         (case updatedEntity of None \<Rightarrow> JNull | Some ent \<Rightarrow> ent)
                         ''Update does not match write rules'' of
                    Inl e \<Rightarrow> (Inl e, staged)
                  | Inr ok \<Rightarrow> (Inr (), staged))))))))"

definition DB_update ::
  "SchemaFromPath \<Rightarrow> Comparison \<Rightarrow> DB \<Rightarrow> string \<Rightarrow> string \<Rightarrow> Updater \<Rightarrow> StoreScope option
     \<Rightarrow> (error + Timestamp) \<times> DB" where
  "DB_update gsp cmp db c entityId updater storeScope =
     DB_transact db (\<lambda>tx. DBTransaction_update gsp cmp tx c entityId updater) storeScope"

section \<open>Schema operations and migrations\<close>

text \<open>
  The operations of a migration (the fields \<^verbatim>\<open>name\<close>, \<^verbatim>\<open>attributes\<close> and \<^verbatim>\<open>rules\<close> of a new
  collection carry a prefix here). A migration is data, so an operation can carry a name
  the \<^verbatim>\<open>switch\<close> of \<^verbatim>\<open>applyRemoteTransaction\<close> does not know: that is
  \<open>UnrecognizedOperation\<close>, which the \<^verbatim>\<open>default\<close> branch answers.
\<close>

record CreateCollectionParams =
  param_name :: string
  param_attributes :: "(string \<times> CollectionAttribute) list"
  param_rules :: "CollectionRules option"

datatype DBOperation =
    CreateCollectionOperation CreateCollectionParams
  | DropCollectionOperation string
  | AddAttributeOperation string string CollectionAttribute
  | DropAttributeOperation string string
  | RenameAttributeOperation string string string
  | UnrecognizedOperation string

record Migration =
  up :: "DBOperation list"
  down :: "DBOperation list"
  migration_version :: int
  parent :: int

datatype Direction = Up | Down

text \<open>\<^verbatim>\<open>ruleToTuple\<close>: one tuple per entry of the rule object.\<close>

definition ruleEntries :: "Rule \<Rightarrow> (string \<times> TupleValue) list" where
  "ruleEntries rule =
     (''filter'', TWhere (rule_filter rule))
     # (case description rule of None \<Rightarrow> [] | Some d \<Rightarrow> [(''description'', TJson (JStr d))])"

definition ruleToTuple :: "string \<Rightarrow> string \<Rightarrow> nat \<Rightarrow> Rule \<Rightarrow> EAV list" where
  "ruleToTuple c ruleType index rule =
     map (\<lambda>(key, v).
            (''_schema'', [S ''collections'', S c, S ''rules'', S ruleType, N index, S key], v))
       (ruleEntries rule)"

text \<open>
  \<^verbatim>\<open>createCollection\<close>. \<^verbatim>\<open>CollectionRules\<close> has the keys \<^verbatim>\<open>read\<close> and \<^verbatim>\<open>write\<close>, so
  \<^verbatim>\<open>rules['update']\<close> is \<^verbatim>\<open>undefined\<close>.
\<close>

definition rulesByType :: "CollectionRules \<Rightarrow> string \<Rightarrow> Rule list option" where
  "rulesByType rs ruleType =
     (if ruleType = ''read'' then rules_read rs
      else if ruleType = ''write'' then rules_write rs
      else None)"

definition createCollection :: "DBTransaction \<Rightarrow> CreateCollectionParams \<Rightarrow> DBTransaction" where
  "createCollection tx params =
     tx\<lparr>storeTx :=
          updateMetadataTuples (storeTx tx)
            (map (\<lambda>(path, attr).
                    (''_schema'',
                     [S ''collections'', S (param_name params), S ''attributes'', S path, S ''type''],
                     TJson (JStr (attr_type attr))))
               (param_attributes params)
             @ (case param_rules params of
                  None \<Rightarrow> []
                | Some rs \<Rightarrow>
                    concat (map (\<lambda>ruleType.
                                   case rulesByType rs ruleType of
                                     Some rules_of_type \<Rightarrow>
                                       concat (map (\<lambda>(i, rule). ruleToTuple (param_name params) ruleType i rule)
                                                 (enumerate 0 rules_of_type))
                                   | None \<Rightarrow> [])
                              [''read'', ''write'', ''update''])))\<rparr>"

definition dropCollection :: "DBTransaction \<Rightarrow> string \<Rightarrow> DBTransaction" where
  "dropCollection tx c =
     tx\<lparr>storeTx :=
          deleteMetadataTuples (storeTx tx)
            (map (\<lambda>(e, a, v). (e, a))
               (readMetadataTuples (storeTx tx) ''_schema'' [S ''collections'', S c]))\<rparr>"

text \<open>
  \<^verbatim>\<open>transformTripleAttribute\<close>: \<^verbatim>\<open>splice(0, attribute.length, ...newAttribute)\<close> takes
  the first \<^verbatim>\<open>attribute.length\<close> items away and puts the new attribute in front.
\<close>

definition transformTripleAttribute :: "TripleRow list \<Rightarrow> Attribute \<Rightarrow> Attribute \<Rightarrow> TripleRow list" where
  "transformTripleAttribute triples attr newAttribute =
     map (\<lambda>triple. triple\<lparr>attribute := newAttribute @ drop (length attr) (attribute triple)\<rparr>)
       triples"

text \<open>
  \<^verbatim>\<open>renameAttribute\<close>. \<^verbatim>\<open>attr.splice(3, 1, newPath)\<close> replaces the item at index 3
  (and appends to a shorter array). The body of the loop over the storage keys is
  \<open>renameInScope\<close>; the scoped transaction shares the state of the transaction it
  comes from.
\<close>

definition spliceNewPath :: "Attribute \<Rightarrow> string \<Rightarrow> Attribute" where
  "spliceNewPath attr newPath = take 3 attr @ [S newPath] @ drop 4 attr"

definition renameInScope ::
  "string \<Rightarrow> string \<Rightarrow> string \<Rightarrow> string \<Rightarrow> TripleStoreTransaction \<Rightarrow> TripleStoreTransaction" where
  "renameInScope c path newPath storageKey tx =
     (case withScope tx ([storageKey], [storageKey]) of
        scopedTx \<Rightarrow>
          (case findByAttribute scopedTx [S c, S path] of
             currentTriples \<Rightarrow>
               withScope
                 (insertTriples (deleteTriples scopedTx currentTriples)
                    (transformTripleAttribute currentTriples [S c, S path] [S c, S newPath]))
                 (readScope tx, writeScope tx)))"

definition renameSchemaTuples ::
  "string \<Rightarrow> string \<Rightarrow> string \<Rightarrow> TripleStoreTransaction \<Rightarrow> TripleStoreTransaction" where
  "renameSchemaTuples c path newPath tx =
     (case readMetadataTuples tx ''_schema'' [S ''collections'', S c, S ''attributes'', S path] of
        existingAttributeInfo \<Rightarrow>
          updateMetadataTuples
            (deleteMetadataTuples tx (map (\<lambda>(e, a, v). (e, a)) existingAttributeInfo))
            (map (\<lambda>(e, a, v). (e, spliceNewPath a newPath, v)) existingAttributeInfo))"

definition renameAttribute :: "DBTransaction \<Rightarrow> string \<Rightarrow> string \<Rightarrow> string \<Rightarrow> DBTransaction" where
  "renameAttribute tx c path newPath =
     tx\<lparr>storeTx :=
          fold (renameInScope c path newPath)
            (map fst (txStorage (storeTx tx)))
            (if DBTransaction_getSchema tx \<noteq> None
             then renameSchemaTuples c path newPath (storeTx tx)
             else storeTx tx)\<rparr>"

definition addAttribute :: "DBTransaction \<Rightarrow> string \<Rightarrow> string \<Rightarrow> CollectionAttribute \<Rightarrow> DBTransaction" where
  "addAttribute tx c path attr =
     (if DBTransaction_getSchema tx \<noteq> None
      then tx\<lparr>storeTx :=
                updateMetadataTuples (storeTx tx)
                  [(''_schema'',
                    [S ''collections'', S c, S ''attributes'', S path, S ''type''],
                    TJson (JStr (attr_type attr)))]\<rparr>
      else tx)"

definition dropAttribute :: "DBTransaction \<Rightarrow> string \<Rightarrow> string \<Rightarrow> DBTransaction" where
  "dropAttribute tx c path =
     (if DBTransaction_getSchema tx \<noteq> None
      then tx\<lparr>storeTx :=
                deleteMetadataTuples (storeTx tx)
                  (map (\<lambda>(e, a, v). (e, a))
                     (readMetadataTuples (storeTx tx) ''_schema''
                        [S ''collections'', S c, S ''attributes'', S path]))\<rparr>
      else tx)"

text \<open>
  \<^verbatim>\<open>applyRemoteTransaction\<close>: the operations run in order inside one call of the
  store's \<^verbatim>\<open>transact\<close>, on a \<^verbatim>\<open>DBTransaction\<close> without variables.
\<close>

fun applyOperation :: "DBTransaction \<Rightarrow> DBOperation \<Rightarrow> (error + unit) \<times> DBTransaction" where
  "applyOperation tx (CreateCollectionOperation params) = (Inr (), createCollection tx params)"
| "applyOperation tx (DropCollectionOperation c) = (Inr (), dropCollection tx c)"
| "applyOperation tx (RenameAttributeOperation c path newPath) =
     (Inr (), renameAttribute tx c path newPath)"
| "applyOperation tx (AddAttributeOperation c path attr) = (Inr (), addAttribute tx c path attr)"
| "applyOperation tx (DropAttributeOperation c path) = (Inr (), dropAttribute tx c path)"
| "applyOperation tx (UnrecognizedOperation opname) =
     (Inl (InvalidMigrationOperationError (''The operation '' @ opname @ '' is not recognized.'')),
      tx)"

fun applyOperations :: "DBTransaction \<Rightarrow> DBOperation list \<Rightarrow> (error + unit) \<times> DBTransaction" where
  "applyOperations tx [] = (Inr (), tx)"
| "applyOperations tx (operation # operations) =
     (case applyOperation tx operation of
        (Inl e, tx') \<Rightarrow> (Inl e, tx')
      | (Inr u, tx') \<Rightarrow> applyOperations tx' operations)"

definition applyRemoteTransaction :: "DB \<Rightarrow> DBOperation list \<Rightarrow> (error + Timestamp) \<times> DB" where
  "applyRemoteTransaction db operations =
     (case TripleStore_transact (tripleStore db)
             (\<lambda>tripTx.
                case applyOperations \<lparr>storeTx = tripTx, tx_variables = None\<rparr> operations of
                  (r, tx) \<Rightarrow> (r, storeTx tx))
             None of
        (r, store) \<Rightarrow> (r, db\<lparr>tripleStore := store\<rparr>))"

text \<open>\<^verbatim>\<open>canMigrate\<close> and \<^verbatim>\<open>migrate\<close> (the log lines are left out).\<close>

definition canMigrate :: "Migration \<Rightarrow> Direction \<Rightarrow> int \<Rightarrow> bool" where
  "canMigrate migration direction dbVersion =
     (if direction = Up then parent migration = dbVersion
      else migration_version migration = dbVersion)"

definition dbVersionOf :: "DB \<Rightarrow> int" where
  "dbVersionOf db =
     (case TripleStore_readSchema (tripleStore db) of
        None \<Rightarrow> 0
      | Some tripleSchema \<Rightarrow> (case version tripleSchema of None \<Rightarrow> 0 | Some v \<Rightarrow> v))"

definition operationsOf :: "Migration \<Rightarrow> Direction \<Rightarrow> DBOperation list" where
  "operationsOf migration direction = (if direction = Up then up migration else down migration)"

definition versionTuple :: "Migration \<Rightarrow> Direction \<Rightarrow> EAV" where
  "versionTuple migration direction =
     (''_schema'', [S ''version''],
      TJson (JNum (if direction = Up then migration_version migration else parent migration)))"

fun migrate :: "DB \<Rightarrow> Migration list \<Rightarrow> Direction \<Rightarrow> (error + unit) \<times> DB" where
  "migrate db [] direction = (Inr (), db)"
| "migrate db (migration # migrations) direction =
     (if canMigrate migration direction (dbVersionOf db)
      then
        (case applyRemoteTransaction db (operationsOf migration direction) of
           (Inl e, db') \<Rightarrow> (Inl e, db')
         | (Inr t, db') \<Rightarrow>
             migrate
               (db'\<lparr>tripleStore :=
                     TripleStore_updateMetadataTuples (tripleStore db')
                       [versionTuple migration direction]\<rparr>)
               migrations direction)
      else migrate db migrations direction)"

section \<open>Example data\<close>

text \<open>
  Modelled from the spec: the operator \<^verbatim>\<open>=\<close> of the filter evaluator (section 4.3) as
  equality of values. It instantiates the operator parameter where the model is run on
  the concrete inputs below; no other operator occurs in them.
\<close>

definition equalityOnly :: Comparison where
  "equalityOnly opr a b = (opr = ''='' \<and> a = b)"

text \<open>
  An empty store with one storage scope, and a migration that creates a collection
  \<^verbatim>\<open>todos\<close> with the write rule \<^verbatim>\<open>done = false\<close> and a collection \<^verbatim>\<open>notes\<close> with the
  read rule \<^verbatim>\<open>public = true\<close>.
\<close>

definition emptyStore :: TripleStore where
  "emptyStore = \<lparr> storage = [(''default'', [])], metadata = [], clock = 0, clientId = ''c1'' \<rparr>"

definition emptyDB :: DB where
  "emptyDB = \<lparr> tripleStore = emptyStore, db_variables = [] \<rparr>"

definition todosMigration :: Migration where
  "todosMigration =
     \<lparr> up =
         [CreateCollectionOperation
            \<lparr> param_name = ''todos'',
              param_attributes = [(''title'', \<lparr>attr_type = ''string''\<rparr>),
                                  (''done'', \<lparr>attr_type = ''boolean''\<rparr>)],
              param_rules =
                Some \<lparr> rules_read = None,
                       rules_write =
                         Some [\<lparr> rule_filter = [FilterStatement ''done'' ''='' (JBool False)],
                                 description = None \<rparr>] \<rparr> \<rparr>,
          CreateCollectionOperation
            \<lparr> param_name = ''notes'',
              param_attributes = [(''public'', \<lparr>attr_type = ''boolean''\<rparr>)],
              param_rules =
                Some \<lparr> rules_read =
                         Some [\<lparr> rule_filter = [FilterStatement ''public'' ''='' (JBool True)],
                                 description = None \<rparr>],
                       rules_write = None \<rparr> \<rparr>],
       down = [DropCollectionOperation ''notes'', DropCollectionOperation ''todos''],
       migration_version = 1,
       parent = 0 \<rparr>"

definition schemaTuples :: "EAV list" where
  "schemaTuples =
     [(''_schema'', [S ''collections'', S ''todos'', S ''attributes'', S ''title'', S ''type''],
       TJson (JStr ''string'')),
      (''_schema'', [S ''collections'', S ''todos'', S ''attributes'', S ''done'', S ''type''],
       TJson (JStr ''boolean'')),
      (''_schema'', [S ''collections'', S ''todos'', S ''rules'', S ''write'', N 0, S ''filter''],
       TWhere [FilterStatement ''done'' ''='' (JBool False)]),
      (''_schema'', [S ''collections'', S ''notes'', S ''attributes'', S ''public'', S ''type''],
       TJson (JStr ''boolean'')),
      (''_schema'', [S ''collections'', S ''notes'', S ''rules'', S ''read'', N 0, S ''filter''],
       TWhere [FilterStatement ''public'' ''='' (JBool True)])]"

text \<open>The store after the operations of the migration, and after the whole migration.\<close>

definition committedDB :: DB where
  "committedDB =
     \<lparr> tripleStore =
         \<lparr> storage = [(''default'', [])], metadata = schemaTuples, clock = 1, clientId = ''c1'' \<rparr>,
       db_variables = [] \<rparr>"

definition migratedDB :: DB where
  "migratedDB =
     \<lparr> tripleStore =
         \<lparr> storage = [(''default'', [])],
           metadata = schemaTuples @ [(''_schema'', [S ''version''], TJson (JNum 1))],
           clock = 1, clientId = ''c1'' \<rparr>,
       db_variables = [] \<rparr>"

text \<open>The migrated store with a todo and a note in it.\<close>

definition todoTriples :: "TripleRow list" where
  "todoTriples =
     [\<lparr> row_id = ''todos#t1'', attribute = [S ''_collection''], row_value = JStr ''todos'',
        timestamp = (2, ''c1''), expired = False \<rparr>,
      \<lparr> row_id = ''todos#t1'', attribute = [S ''todos'', S ''title''], row_value = JStr ''milk'',
        timestamp = (2, ''c1''), expired = False \<rparr>,
      \<lparr> row_id = ''todos#t1'', attribute = [S ''todos'', S ''done''], row_value = JBool False,
        timestamp = (2, ''c1''), expired = False \<rparr>]"

definition noteTriples :: "TripleRow list" where
  "noteTriples =
     [\<lparr> row_id = ''notes#n1'', attribute = [S ''_collection''], row_value = JStr ''notes'',
        timestamp = (3, ''c1''), expired = False \<rparr>,
      \<lparr> row_id = ''notes#n1'', attribute = [S ''notes'', S ''public''], row_value = JBool True,
        timestamp = (3, ''c1''), expired = False \<rparr>]"

definition populatedDB :: DB where
  "populatedDB =
     \<lparr> tripleStore =
         \<lparr> storage = [(''default'', todoTriples @ noteTriples)],
           metadata = schemaTuples @ [(''_schema'', [S ''version''], TJson (JNum 1))],
           clock = 3, clientId = ''c1'' \<rparr>,
       db_variables = [] \<rparr>"

text \<open>
  Modelled from the spec: \<^verbatim>\<open>getSchemaFromPath\<close> resolves a path against the attribute
  map of the collection (section 3: attribute name to descriptor). This instance of the
  parameter knows the top-level attributes of the collection and no other path.
\<close>

definition attributeSchema :: SchemaFromPath where
  "attributeSchema model path =
     (case path of
        [p] \<Rightarrow> map_option (\<lambda>attr. JObj [(''type'', JStr (attr_type attr))])
                 (map_of (model_attributes model) p)
      | _ \<Rightarrow> None)"

text \<open>Two mutators: \<^verbatim>\<open>e.done = true\<close> and \<^verbatim>\<open>e.nickname = 'Bob'\<close>.\<close>

definition markDone :: Updater where
  "markDone proxy changeTracker = proxySet attributeSchema proxy ''done'' (JBool True) changeTracker"

definition setNickname :: Updater where
  "setNickname proxy changeTracker =
     proxySet attributeSchema proxy ''nickname'' (JStr ''Bob'') changeTracker"

text \<open>
  Modelled from the spec: the operators \<^verbatim>\<open>=\<close> and \<^verbatim>\<open>!=\<close> of the filter evaluator
  (section 4.3) as equality and inequality of values.
\<close>

definition equalityOperators :: Comparison where
  "equalityOperators opr a b =
     (if opr = ''='' then a = b else if opr = ''!='' then a \<noteq> b else False)"

text \<open>
  A store with two collections of the same attributes and the same write rule
  \<^verbatim>\<open>locked != true\<close>: \<^verbatim>\<open>docs\<close> has the read rule \<^verbatim>\<open>public = true\<close> as well,
  \<^verbatim>\<open>files\<close> has no read rule. Each holds one entity \<^verbatim>\<open>{public: true, locked: false}\<close>.
  The mutator \<open>lock\<close> is \<^verbatim>\<open>e.locked = true\<close>.
\<close>

definition guardedSchemaTuples :: "EAV list" where
  "guardedSchemaTuples =
     [(''_schema'', [S ''collections'', S ''docs'', S ''attributes'', S ''public'', S ''type''],
       TJson (JStr ''boolean'')),
      (''_schema'', [S ''collections'', S ''docs'', S ''attributes'', S ''locked'', S ''type''],
       TJson (JStr ''boolean'')),
      (''_schema'', [S ''collections'', S ''docs'', S ''rules'', S ''read'', N 0, S ''filter''],
       TWhere [FilterStatement ''public'' ''='' (JBool True)]),
      (''_schema'', [S ''collections'', S ''docs'', S ''rules'', S ''write'', N 0, S ''filter''],
       TWhere [FilterStatement ''locked'' ''!='' (JBool True)]),
      (''_schema'', [S ''collections'', S ''files'', S ''attributes'', S ''public'', S ''type''],
       TJson (JStr ''boolean'')),
      (''_schema'', [S ''collections'', S ''files'', S ''attributes'', S ''locked'', S ''type''],
       TJson (JStr ''boolean'')),
      (''_schema'', [S ''collections'', S ''files'', S ''rules'', S ''write'', N 0, S ''filter''],
       TWhere [FilterStatement ''locked'' ''!='' (JBool True)]),
      (''_schema'', [S ''version''], TJson (JNum 1))]"

definition guardedTriples :: "string \<Rightarrow> string \<Rightarrow> nat \<Rightarrow> TripleRow list" where
  "guardedTriples c i tick =
     [\<lparr> row_id = c @ ''#'' @ i, attribute = [S ''_collection''], row_value = JStr c,
        timestamp = (tick, ''c1''), expired = False \<rparr>,
      \<lparr> row_id = c @ ''#'' @ i, attribute = [S c, S ''public''], row_value = JBool True,
        timestamp = (tick, ''c1''), expired = False \<rparr>,
      \<lparr> row_id = c @ ''#'' @ i, attribute = [S c, S ''locked''], row_value = JBool False,
        timestamp = (tick, ''c1''), expired = False \<rparr>]"

definition guardedDB :: DB where
  "guardedDB =
     \<lparr> tripleStore =
         \<lparr> storage = [(''default'', guardedTriples ''docs'' ''d1'' 2 @ guardedTriples ''files'' ''f1'' 3)],
           metadata = guardedSchemaTuples, clock = 3, clientId = ''c1'' \<rparr>,
       db_variables = [] \<rparr>"

definition lock :: Updater where
  "lock proxy changeTracker = proxySet attributeSchema proxy ''locked'' (JBool True) changeTracker"

text \<open>
  A store whose rules refer to the variable \<^verbatim>\<open>$toString\<close>, which is not among the
  variables of the database: \<^verbatim>\<open>posts\<close> has the write rule \<^verbatim>\<open>author = $toString\<close>,
  \<^verbatim>\<open>drafts\<close> has it as its read rule. Each holds one entity of the author \<^verbatim>\<open>u1\<close>. The
  mutator \<open>retitle\<close> is \<^verbatim>\<open>e.title = 'bye'\<close>.
\<close>

definition sessionSchemaTuples :: "EAV list" where
  "sessionSchemaTuples =
     [(''_schema'', [S ''collections'', S ''posts'', S ''attributes'', S ''author'', S ''type''],
       TJson (JStr ''string'')),
      (''_schema'', [S ''collections'', S ''posts'', S ''attributes'', S ''title'', S ''type''],
       TJson (JStr ''string'')),
      (''_schema'', [S ''collections'', S ''posts'', S ''rules'', S ''write'', N 0, S ''filter''],
       TWhere [FilterStatement ''author'' ''='' (JStr ''$toString'')]),
      (''_schema'', [S ''collections'', S ''drafts'', S ''attributes'', S ''author'', S ''type''],
       TJson (JStr ''string'')),
      (''_schema'', [S ''collections'', S ''drafts'', S ''rules'', S ''read'', N 0, S ''filter''],
       TWhere [FilterStatement ''author'' ''='' (JStr ''$toString'')]),
      (''_schema'', [S ''version''], TJson (JNum 1))]"

definition sessionTriples :: "TripleRow list" where
  "sessionTriples =
     [\<lparr> row_id = ''posts#p1'', attribute = [S ''_collection''], row_value = JStr ''posts'',
        timestamp = (2, ''c1''), expired = False \<rparr>,
      \<lparr> row_id = ''posts#p1'', attribute = [S ''posts'', S ''author''], row_value = JStr ''u1'',
        timestamp = (2, ''c1''), expired = False \<rparr>,
      \<lparr> row_id = ''posts#p1'', attribute = [S ''posts'', S ''title''], row_value = JStr ''hello'',
        timestamp = (2, ''c1''), expired = False \<rparr>,
      \<lparr> row_id = ''drafts#d1'', attribute = [S ''_collection''], row_value = JStr ''drafts'',
        timestamp = (3, ''c1''), expired = False \<rparr>,
      \<lparr> row_id = ''drafts#d1'', attribute = [S ''drafts'', S ''author''], row_value = JStr ''u1'',
        timestamp = (3, ''c1''), expired = False \<rparr>]"

definition sessionDB :: DB where
  "sessionDB =
     \<lparr> tripleStore =
         \<lparr> storage = [(''default'', sessionTriples)],
           metadata = sessionSchemaTuples, clock = 3, clientId = ''c1'' \<rparr>,
       db_variables = [(''userId'', JStr ''u1'')] \<rparr>"

definition retitle :: Updater where
  "retitle proxy changeTracker = proxySet attributeSchema proxy ''title'' (JStr ''bye'') changeTracker"

section \<open>Vocabulary for the rename theorem\<close>

text \<open>
  A triple with its attribute prefix \<^verbatim>\<open>[c, p]\<close> replaced by \<^verbatim>\<open>[c, q]\<close>, and a set of
  triples with every triple under \<^verbatim>\<open>[c, p]\<close> replaced so; the key of a metadata tuple
  (its entity and attribute); the \<^verbatim>\<open>_schema\<close> tuples of the attribute \<open>p\<close> of the
  collection \<open>c\<close>; a transaction on the example store.
\<close>

definition renamed :: "string \<Rightarrow> string \<Rightarrow> TripleRow \<Rightarrow> TripleRow" where
  "renamed c q t = t\<lparr>attribute := [S c, S q] @ drop 2 (attribute t)\<rparr>"

definition rewritten :: "string \<Rightarrow> string \<Rightarrow> string \<Rightarrow> TripleRow set \<Rightarrow> TripleRow set" where
  "rewritten c p q T =
     {t \<in> T. \<not> prefix [S c, S p] (attribute t)}
     \<union> renamed c q ` {t \<in> T. prefix [S c, S p] (attribute t)}"

definition tupleKey :: "EAV \<Rightarrow> string \<times> Attribute" where
  "tupleKey t = (case t of (e, a, v) \<Rightarrow> (e, a))"

definition schemaMatch :: "string \<Rightarrow> string \<Rightarrow> EAV \<Rightarrow> bool" where
  "schemaMatch c p t =
     (case t of (e, a, v) \<Rightarrow>
        e = ''_schema'' \<and> prefix [S ''collections'', S c, S ''attributes'', S p] a)"

definition renameTx :: DBTransaction where
  "renameTx = \<lparr>storeTx = beginTransaction (tripleStore populatedDB) None, tx_variables = None\<rparr>"

section \<open>The schema diff engine\<close>

text \<open>
  Modelled from the spec: the schema model of section 3 (\<^verbatim>\<open>../src/schema/diff.js\<close> and
  the schema builder are not among the sources at hand; only the test
  \<^verbatim>\<open>schema-checking.spec.ts\<close> is). An attribute descriptor is a leaf type (\<^verbatim>\<open>Id\<close>,
  \<^verbatim>\<open>String\<close>, \<^verbatim>\<open>Number\<close>, \<^verbatim>\<open>Boolean\<close>, \<^verbatim>\<open>Date\<close>) with its options, a set of an
  item descriptor with its options, or a record of fields; \<^verbatim>\<open>Optional\<close> wraps a
  descriptor and sets the flag \<^verbatim>\<open>optional\<close> at that path, which every descriptor
  carries as its last component. Rules, permissions and roles are opaque blobs compared
  by deep equality.
\<close>

record DefaultSpec =
  func :: string
  args :: json

record Options =
  nullable :: bool
  default_spec :: "DefaultSpec option"
  enum_values :: "json list option"

datatype LeafType = IdType | StringType | NumberType | BooleanType | DateType

datatype AttributeDescriptor =
    Leaf LeafType Options bool
  | SetOf AttributeDescriptor Options bool
  | RecordOf "(string \<times> AttributeDescriptor) list" bool

type_synonym AttributeMap = "(string \<times> AttributeDescriptor) list"

fun Optional :: "AttributeDescriptor \<Rightarrow> AttributeDescriptor" where
  "Optional (Leaf t opts optional) = Leaf t opts True"
| "Optional (SetOf item opts optional) = SetOf item opts True"
| "Optional (RecordOf fs optional) = RecordOf fs True"

record CollectionDef =
  schema_attributes :: AttributeMap
  schema_rules :: "json option"
  schema_permissions :: "json option"

record Schema =
  schema_version :: int
  schema_collections :: "(string \<times> CollectionDef) list"
  schema_roles :: "json option"

text \<open>
  Modelled from the spec: the diff records of section 4.4. A \<^verbatim>\<open>collectionAttribute\<close>
  record has the collection, the type (\<^verbatim>\<open>insert\<close>, \<^verbatim>\<open>delete\<close> or \<^verbatim>\<open>update\<close>), the
  attribute path and, where present, \<^verbatim>\<open>metadata\<close>, \<^verbatim>\<open>changes\<close> and
  \<^verbatim>\<open>isNewCollection\<close>. The \<^verbatim>\<open>changes\<close> of an update hold only the differing fields,
  each with its new content: \<^verbatim>\<open>type\<close>, \<^verbatim>\<open>optional\<close>, \<^verbatim>\<open>options.nullable\<close>,
  \<^verbatim>\<open>options.default\<close>, \<^verbatim>\<open>options.enum\<close> and the nested differences of a set's item
  type. A field that does not differ is \<open>None\<close>; the new content of an option is
  itself absent where the new descriptor has no such option (a record has no options).
\<close>

datatype TypeName = LeafName LeafType | SetName | RecordName

datatype Changes =
  Changes (changed_type: "TypeName option")
          (changed_optional: "bool option")
          (changed_nullable: "bool option option")
          (changed_default: "DefaultSpec option option")
          (changed_enum: "json list option option")
          (changed_items: "Changes option")

datatype DiffType = Insert | Delete | Update

datatype Diff =
    CollectionAttribute string DiffType "string list" "AttributeDescriptor option"
      "Changes option" "bool option"
  | CollectionRules string
  | CollectionPermissions string
  | Roles

fun typeName :: "AttributeDescriptor \<Rightarrow> TypeName" where
  "typeName (Leaf t opts optional) = LeafName t"
| "typeName (SetOf item opts optional) = SetName"
| "typeName (RecordOf fs optional) = RecordName"

fun isOptional :: "AttributeDescriptor \<Rightarrow> bool" where
  "isOptional (Leaf t opts optional) = optional"
| "isOptional (SetOf item opts optional) = optional"
| "isOptional (RecordOf fs optional) = optional"

fun optionsOf :: "AttributeDescriptor \<Rightarrow> Options option" where
  "optionsOf (Leaf t opts optional) = Some opts"
| "optionsOf (SetOf item opts optional) = Some opts"
| "optionsOf (RecordOf fs optional) = None"

definition differing :: "'a \<Rightarrow> 'a \<Rightarrow> 'a option" where
  "differing old new = (if old = new then None else Some new)"

fun changesOf :: "AttributeDescriptor \<Rightarrow> AttributeDescriptor \<Rightarrow> Changes" where
  "changesOf (SetOf item opts optional) (SetOf item' opts' optional') =
     Changes None
       (differing optional optional')
       (differing (Some (nullable opts)) (Some (nullable opts')))
       (differing (default_spec opts) (default_spec opts'))
       (differing (enum_values opts) (enum_values opts'))
       (if item = item' then None else Some (changesOf item item'))"
| "changesOf d d' =
     Changes (differing (typeName d) (typeName d'))
       (differing (isOptional d) (isOptional d'))
       (differing (map_option nullable (optionsOf d)) (map_option nullable (optionsOf d')))
       (differing (Option.bind (optionsOf d) default_spec) (Option.bind (optionsOf d') default_spec))
       (differing (Option.bind (optionsOf d) enum_values) (Option.bind (optionsOf d') enum_values))
       None"

text \<open>
  Modelled from the spec: the traversal of section 4.4. Both attribute maps are walked
  by attribute name. A path present only in the new map is an \<^verbatim>\<open>insert\<close> with the new
  descriptor as metadata and \<^verbatim>\<open>isNewCollection\<close> set when the whole collection is new;
  a path present only in the old map is a \<^verbatim>\<open>delete\<close> with the old descriptor; a path
  present in both with differing descriptors is an \<^verbatim>\<open>update\<close>. For two records the
  walk recurses into the fields (a record whose optional flag differs is an update at
  its own path as well); the difference of two sets' item types is part of the update at
  the set's path.
\<close>

function diffAttributes ::
  "string \<Rightarrow> bool \<Rightarrow> string list \<Rightarrow> AttributeMap \<Rightarrow> AttributeMap \<Rightarrow> Diff list" where
  "diffAttributes c isNew path old new =
     concat
       (map (\<lambda>n.
          case map_of old n of
            None \<Rightarrow>
              (case map_of new n of
                 None \<Rightarrow> []
               | Some d' \<Rightarrow>
                   [CollectionAttribute c Insert (path @ [n]) (Some d') None (Some isNew)])
          | Some d \<Rightarrow>
              (case map_of new n of
                 None \<Rightarrow> [CollectionAttribute c Delete (path @ [n]) (Some d) None None]
               | Some d' \<Rightarrow>
                   (case d of
                      RecordOf fs optional \<Rightarrow>
                        (case d' of
                           RecordOf fs' optional' \<Rightarrow>
                             (if optional = optional' then []
                              else [CollectionAttribute c Update (path @ [n]) None
                                      (Some (changesOf d d')) None])
                             @ diffAttributes c False (path @ [n]) fs fs'
                         | _ \<Rightarrow>
                             [CollectionAttribute c Update (path @ [n]) None
                                (Some (changesOf d d')) None])
                    | _ \<Rightarrow>
                        (if d = d' then []
                         else [CollectionAttribute c Update (path @ [n]) None
                                 (Some (changesOf d d')) None]))))
          (remdups (map fst old @ map fst new)))"
  by pat_completeness auto
termination
proof (relation "measure (\<lambda>(c, isNew, path, old, new). size_list (size_prod (\<lambda>n. 0) size) old)")
  show "wf (measure (\<lambda>(c, isNew, path, old, new). size_list (size_prod (\<lambda>n. 0) size) old))"
    by simp
next
  fix c :: string and isNew :: bool and path :: "string list"
    and old new :: AttributeMap and n d d' fs optional fs' optional'
  assume "map_of old n = Some d" and "d = RecordOf fs optional"
  then have "(n, RecordOf fs optional) \<in> set old"
    by (simp add: map_of_SomeD)
  then have "size_prod (\<lambda>n. 0) size (n, RecordOf fs optional)
               \<le> size_list (size_prod (\<lambda>n. 0) size) old"
    by (simp add: size_list_estimation')
  then show "((c, False, path @ [n], fs, fs'), (c, isNew, path, old, new))
      \<in> measure (\<lambda>(c, isNew, path, old, new). size_list (size_prod (\<lambda>n. 0) size) old)"
    by simp
qed
declare diffAttributes.simps [simp del]

text \<open>
  Modelled from the spec: both collection maps are walked by collection name; for each
  pair the attribute trees are compared from the root, a \<^verbatim>\<open>collectionRules\<close> record is
  emitted iff the rules blobs differ (added, removed or changed) and a
  \<^verbatim>\<open>collectionPermissions\<close> record iff the permissions blobs do; a \<^verbatim>\<open>roles\<close> record is
  emitted iff the top-level roles blobs differ. A collection that one schema lacks has
  no attributes and no blobs there. The diff is sorted by collection, attribute path
  and discriminant (the discriminants in alphabetical order); a record without a
  collection or a path sorts with the empty one.
\<close>

definition attributesOf :: "CollectionDef option \<Rightarrow> AttributeMap" where
  "attributesOf def = (case def of None \<Rightarrow> [] | Some cd \<Rightarrow> schema_attributes cd)"

definition diffCollection :: "string \<Rightarrow> CollectionDef option \<Rightarrow> CollectionDef option \<Rightarrow> Diff list" where
  "diffCollection c old new =
     diffAttributes c (old = None) [] (attributesOf old) (attributesOf new)
     @ (if Option.bind old schema_rules = Option.bind new schema_rules then []
        else [CollectionRules c])
     @ (if Option.bind old schema_permissions = Option.bind new schema_permissions then []
        else [CollectionPermissions c])"

fun diffKey :: "Diff \<Rightarrow> string \<times> string list \<times> nat" where
  "diffKey (CollectionAttribute c t path m ch isNew) = (c, path, 0)"
| "diffKey (CollectionPermissions c) = (c, [], 1)"
| "diffKey (CollectionRules c) = (c, [], 2)"
| "diffKey Roles = ([], [], 3)"

definition diffSchemas :: "Schema \<Rightarrow> Schema \<Rightarrow> Diff list" where
  "diffSchemas old new =
     sort_key diffKey
       (concat
          (map (\<lambda>c. diffCollection c (map_of (schema_collections old) c)
                       (map_of (schema_collections new) c))
             (remdups (map fst (schema_collections old) @ map fst (schema_collections new))))
        @ (if schema_roles old = schema_roles new then [] else [Roles]))"

definition idDescriptor :: AttributeDescriptor where
  "idDescriptor =
     Leaf IdType \<lparr>nullable = False, default_spec = Some \<lparr>func = ''uuid'', args = JNull\<rparr>,
                  enum_values = None\<rparr> False"

definition schemaA :: Schema where
  "schemaA =
     \<lparr> schema_version = 0,
       schema_collections =
         [(''first'', \<lparr>schema_attributes = [(''id'', idDescriptor)], schema_rules = None,
                       schema_permissions = None\<rparr>)],
       schema_roles = None \<rparr>"

definition schemaB :: Schema where
  "schemaB =
     \<lparr> schema_version = 0,
       schema_collections =
         [(''first'', \<lparr>schema_attributes = [(''id'', idDescriptor)], schema_rules = None,
                       schema_permissions = None\<rparr>),
          (''second'', \<lparr>schema_attributes = [(''id'', idDescriptor)], schema_rules = None,
                        schema_permissions = None\<rparr>)],
       schema_roles = None \<rparr>"


text \<open>
  The part of the walk that belongs to one attribute name, given what the walk yields
  for the fields of two records, and the relation between a diff record and its
  counterpart in the diff of the swapped schemas: an insert and the delete of the same
  collection, path and metadata, two updates of the same path whose changes come from
  the same two descriptors in the two orientations, and a rules, permissions or roles
  record and itself.
\<close>

definition attributeEntry ::
  "(AttributeMap \<Rightarrow> AttributeMap \<Rightarrow> Diff list) \<Rightarrow> string \<Rightarrow> bool \<Rightarrow> string list
     \<Rightarrow> AttributeDescriptor option \<Rightarrow> AttributeDescriptor option \<Rightarrow> Diff list" where
  "attributeEntry nested c isNew path old new =
     (case old of
        None \<Rightarrow>
          (case new of
             None \<Rightarrow> []
           | Some d' \<Rightarrow> [CollectionAttribute c Insert path (Some d') None (Some isNew)])
      | Some d \<Rightarrow>
          (case new of
             None \<Rightarrow> [CollectionAttribute c Delete path (Some d) None None]
           | Some d' \<Rightarrow>
               (case d of
                  RecordOf fs optional \<Rightarrow>
                    (case d' of
                       RecordOf fs' optional' \<Rightarrow>
                         (if optional = optional' then []
                          else [CollectionAttribute c Update path None
                                  (Some (changesOf d d')) None])
                         @ nested fs fs'
                     | _ \<Rightarrow>
                         [CollectionAttribute c Update path None (Some (changesOf d d')) None])
                | _ \<Rightarrow>
                    (if d = d' then []
                     else [CollectionAttribute c Update path None
                             (Some (changesOf d d')) None]))))"

definition counterpart :: "Diff \<Rightarrow> Diff \<Rightarrow> bool" where
  "counterpart x y =
     (case x of
        CollectionAttribute c t path m ch isNew \<Rightarrow>
          (case t of
             Insert \<Rightarrow> y = CollectionAttribute c Delete path m None None
           | Delete \<Rightarrow> (\<exists>isNew'. y = CollectionAttribute c Insert path m None (Some isNew'))
           | Update \<Rightarrow>
               (\<exists>d d'. ch = Some (changesOf d d')
                  \<and> y = CollectionAttribute c Update path None (Some (changesOf d' d)) None))
      | _ \<Rightarrow> y = x)"

text \<open>
  Two more schemas of one collection: from \<open>schemaC\<close> to \<open>schemaD\<close> the attribute
  \<^verbatim>\<open>title\<close> becomes optional, \<^verbatim>\<open>note\<close> goes, \<^verbatim>\<open>extra\<close> comes, the record
  \<^verbatim>\<open>address\<close> gets the field \<^verbatim>\<open>zip\<close>, the set \<^verbatim>\<open>tags\<close> becomes a nullable set of
  numbers, the rules go, and permissions and roles come.
\<close>

definition stringDescriptor :: AttributeDescriptor where
  "stringDescriptor =
     Leaf StringType \<lparr>nullable = False, default_spec = None, enum_values = None\<rparr> False"

definition schemaC :: Schema where
  "schemaC =
     \<lparr> schema_version = 0,
       schema_collections =
         [(''first'',
           \<lparr>schema_attributes =
              [(''id'', idDescriptor), (''title'', stringDescriptor), (''note'', stringDescriptor),
               (''address'', RecordOf [(''city'', stringDescriptor)] False),
               (''tags'', SetOf stringDescriptor
                            \<lparr>nullable = False, default_spec = None, enum_values = None\<rparr> False)],
            schema_rules = Some (JObj [(''read'', JObj [])]),
            schema_permissions = None\<rparr>)],
       schema_roles = None \<rparr>"

definition schemaD :: Schema where
  "schemaD =
     \<lparr> schema_version = 0,
       schema_collections =
         [(''first'',
           \<lparr>schema_attributes =
              [(''id'', idDescriptor), (''title'', Optional stringDescriptor),
               (''extra'', stringDescriptor),
               (''address'', RecordOf [(''city'', stringDescriptor), (''zip'', stringDescriptor)] False),
               (''tags'', SetOf (Leaf NumberType
                                   \<lparr>nullable = False, default_spec = None, enum_values = None\<rparr> False)
                            \<lparr>nullable = True, default_spec = None, enum_values = None\<rparr> False)],
            schema_rules = None,
            schema_permissions = Some (JObj [(''read'', JObj [])])\<rparr>)],
       schema_roles = Some (JObj [(''user'', JObj [(''match'', JObj [(''type'', JStr ''user'')])])]) \<rparr>"

section \<open>Variable resolution\<close>

lemma find_append_cases:
  "List.find P (xs @ ys) = (case List.find P xs of None \<Rightarrow> List.find P ys | Some x \<Rightarrow> Some x)"
  by (induction xs) auto

lemma replaceVariables_characterised:
  "replaceVariablesInFilterStatements fs variables =
     (case List.find (\<lambda>n. \<not> resolves variables n) (variableRefs fs) of
        Some n \<Rightarrow> Inl (SessionVariableNotFoundError (CHR ''$'' # n))
      | None \<Rightarrow> Inr (substituted variables fs))"
  "replaceVariablesInFilter f variables =
     (case List.find (\<lambda>n. \<not> resolves variables n) (variableRefsIn f) of
        Some n \<Rightarrow> Inl (SessionVariableNotFoundError (CHR ''$'' # n))
      | None \<Rightarrow> Inr (substitutedIn variables f))"
proof (induction fs variables and f variables
    rule: replaceVariablesInFilterStatements_replaceVariablesInFilter.induct)
  case (1 variables)
  show ?case by simp
next
  case (2 f fs variables)
  then show ?case
    by (simp add: find_append_cases split: option.splits sum.splits)
next
  case (3 m fs variables)
  then show ?case
    by (simp split: option.splits sum.splits)
next
  case (4 p opr v variables)
  show ?case
  proof (cases v)
    case (JStr s)
    then show ?thesis
      by (cases s) (simp_all add: resolves_def split: option.splits)
  qed simp_all
qed


text \<open>
  Claim C10, evaluated on the code. A filter statement whose value is a string starting
  with \<^verbatim>\<open>$\<close> is resolved by \<^verbatim>\<open>variables[name]\<close> on a plain object. The first
  reference, in document order, whose lookup gives no truthy value raises
  \<^verbatim>\<open>SessionVariableNotFoundError\<close>, so a variable bound to a falsy value (\<^verbatim>\<open>0\<close>,
  \<^verbatim>\<open>false\<close>, the empty string, \<^verbatim>\<open>null\<close>) raises like an unbound one. But a name
  that is absent from the variables map is not always unbound for the lookup: for
  \<^verbatim>\<open>$toString\<close> (and every other member of \<^verbatim>\<open>Object.prototype\<close>) it finds the
  inherited built-in function, which is truthy, and substitutes it instead of raising.
  With no variable \<^verbatim>\<open>toString\<close> in the database, the read rule
  \<^verbatim>\<open>author = $toString\<close> makes \<^verbatim>\<open>fetchById\<close> answer \<^verbatim>\<open>null\<close> for an entity that
  exists, the same write rule makes \<^verbatim>\<open>insert\<close> and \<^verbatim>\<open>update\<close> fail with
  \<^verbatim>\<open>WriteRuleError\<close>, and the query that \<^verbatim>\<open>fetch\<close> and \<^verbatim>\<open>subscribe\<close> evaluate carries
  the function as its operand; none of them raises \<^verbatim>\<open>SessionVariableNotFoundError\<close>,
  which the unbound \<^verbatim>\<open>$tenant\<close> does. Once the database binds \<^verbatim>\<open>toString\<close> itself,
  the operations behave as for any other variable: a truthy value is substituted, a
  falsy one raises. A variable of the query comes before one of the database.
\<close>

theorem replaceVariables_substitutes_inherited_members:
  "replaceVariablesInFilterStatements fs variables =
     (case List.find (\<lambda>n. \<not> resolves variables n) (variableRefs fs) of
        Some n \<Rightarrow> Inl (SessionVariableNotFoundError (CHR ''$'' # n))
      | None \<Rightarrow> Inr (substituted variables fs))
   \<and> map_of (db_variables sessionDB) ''toString'' = None
   \<and> replaceVariablesInFilterStatements
        [FilterStatement ''author'' ''='' (JStr ''$toString'')] (db_variables sessionDB)
      = Inr [FilterStatement ''author'' ''='' (JInherited ''toString'')]
   \<and> replaceVariablesInFilterStatements
        [FilterStatement ''author'' ''='' (JStr ''$tenant'')] (db_variables sessionDB)
      = Inl (SessionVariableNotFoundError ''$tenant'')
   \<and> replaceVariablesInFilterStatements
        [FilterGroup ''and'' [FilterStatement ''author'' ''='' (JStr ''$userId'')],
         FilterStatement ''done'' ''='' (JStr ''$flag'')]
        [(''userId'', JNum 7), (''flag'', JBool False)]
      = Inl (SessionVariableNotFoundError ''$flag'')
   \<and> map (\<lambda>v. replaceVariablesInFilterStatements
                  [FilterStatement ''author'' ''='' (JStr ''$userId'')] [(''userId'', v)])
        [JNum 0, JBool False, JStr [], JNull]
      = replicate 4 (Inl (SessionVariableNotFoundError ''$userId''))
   \<and> DB_fetchById equalityOnly sessionDB ''drafts'' ''d1'' = Inr None
   \<and> DBTransaction_fetchById equalityOnly
        \<lparr>storeTx = beginTransaction (tripleStore sessionDB) None,
         tx_variables = Some (db_variables sessionDB)\<rparr>
        ''drafts'' ''d1''
      = Inr None
   \<and> DB_insert equalityOnly ''p2'' sessionDB ''posts''
        (JObj [(''author'', JStr ''u1''), (''title'', JStr ''new'')]) None None
      = (Inl (WriteRuleError ''Insert does not match write rules''), sessionDB)
   \<and> DB_update attributeSchema equalityOnly sessionDB ''posts'' ''p1'' retitle None
      = (Inl (WriteRuleError ''Update does not match write rules''), sessionDB)
   \<and> DB_fetchQuery sessionDB
        \<lparr>collectionName = Some ''drafts'', query_where = [], query_vars = None\<rparr>
      = Inr \<lparr>collectionName = Some ''drafts'',
             query_where = [FilterStatement ''author'' ''='' (JInherited ''toString'')],
             query_vars = None\<rparr>
   \<and> DB_fetchQuery sessionDB
        \<lparr>collectionName = Some ''drafts'',
         query_where = [FilterStatement ''title'' ''='' (JStr ''$tenant'')],
         query_vars = None\<rparr>
      = Inl (SessionVariableNotFoundError ''$tenant'')
   \<and> map (\<lambda>vars. DB_fetchQuery sessionDB
                     \<lparr>collectionName = Some ''posts'',
                      query_where = [FilterStatement ''author'' ''='' (JStr ''$userId'')],
                      query_vars = vars\<rparr>)
        [None, Some [(''userId'', JStr ''u2'')], Some [(''userId'', JNum 0)]]
      = [Inr \<lparr>collectionName = Some ''posts'',
               query_where = [FilterStatement ''author'' ''='' (JStr ''u1'')],
               query_vars = None\<rparr>,
         Inr \<lparr>collectionName = Some ''posts'',
               query_where = [FilterStatement ''author'' ''='' (JStr ''u2'')],
               query_vars = Some [(''userId'', JStr ''u2'')]\<rparr>,
         Inl (SessionVariableNotFoundError ''$userId'')]
   \<and> DB_fetchById equalityOnly (sessionDB\<lparr>db_variables := [(''toString'', JStr ''u1'')]\<rparr>)
        ''drafts'' ''d1''
      = Inr (Some (JObj [(''author'', JArr [JStr ''u1'', JArr [JNum 3, JStr ''c1'']])]))
   \<and> DB_fetchById equalityOnly (sessionDB\<lparr>db_variables := [(''toString'', JStr [])]\<rparr>)
        ''drafts'' ''d1''
      = Inl (SessionVariableNotFoundError ''$toString'')
   \<and> DB_insert equalityOnly ''p2'' (sessionDB\<lparr>db_variables := [(''toString'', JNull)]\<rparr>)
        ''posts'' (JObj [(''author'', JStr ''u1''), (''title'', JStr ''new'')]) None None
      = (Inl (SessionVariableNotFoundError ''$toString''),
         sessionDB\<lparr>db_variables := [(''toString'', JNull)]\<rparr>)
   \<and> DB_update attributeSchema equalityOnly
        (sessionDB\<lparr>db_variables := [(''toString'', JBool False)]\<rparr>) ''posts'' ''p1'' retitle None
      = (Inl (SessionVariableNotFoundError ''$toString''),
         sessionDB\<lparr>db_variables := [(''toString'', JBool False)]\<rparr>)"
proof (rule conjI)
  show "replaceVariablesInFilterStatements fs variables =
     (case List.find (\<lambda>n. \<not> resolves variables n) (variableRefs fs) of
        Some n \<Rightarrow> Inl (SessionVariableNotFoundError (CHR ''$'' # n))
      | None \<Rightarrow> Inr (substituted variables fs))"
    by (rule replaceVariables_characterised)
qed code_simp


section \<open>Transactions\<close>


text \<open>
  Claim C7. For every callback, \<^verbatim>\<open>DB.transact(cb, scope?)\<close> commits the transaction
  when the callback returns without throwing: the function handed to the store returns
  with the transaction as the callback left it, the result is the commit timestamp and
  the store is the one the commit of that transaction leaves. When the callback throws,
  the transaction is cancelled: the function handed to the store cancels the transaction
  the callback worked on, so that a commit of it persists nothing, the database is as it
  was before (no staged write persists), and the same exception is raised to the caller.
\<close>

theorem transact_commits_or_cancels:
  "(callback \<lparr>storeTx = beginTransaction (tripleStore db) scope,
              tx_variables = Some (db_variables db)\<rparr> = (Inr u, tx)
      \<longrightarrow> transactCallback db callback (beginTransaction (tripleStore db) scope)
            = (Inr u, storeTx tx)
          \<and> DB_transact db callback scope
            = (Inr (txTimestamp (storeTx tx)),
               db\<lparr>tripleStore := DBTransaction_commit (tripleStore db) tx\<rparr>)
          \<and> (\<not> isCanceled (storeTx tx)
               \<longrightarrow> storage (DBTransaction_commit (tripleStore db) tx) = txStorage (storeTx tx)
                 \<and> metadata (DBTransaction_commit (tripleStore db) tx) = txMetadata (storeTx tx)))
   \<and> (callback \<lparr>storeTx = beginTransaction (tripleStore db) scope,
                tx_variables = Some (db_variables db)\<rparr> = (Inl e, tx)
      \<longrightarrow> transactCallback db callback (beginTransaction (tripleStore db) scope)
            = (Inl e, storeTx (DBTransaction_cancel tx))
          \<and> isCanceled (snd (transactCallback db callback (beginTransaction (tripleStore db) scope)))
          \<and> (\<forall>store. TripleStoreTransaction_commit store
                         (snd (transactCallback db callback (beginTransaction (tripleStore db) scope)))
                       = store)
          \<and> DB_transact db callback scope = (Inl e, db))"
  by (simp add: DB_transact_def transactCallback_def TripleStore_transact_def
      DBTransaction_commit_def DBTransaction_cancel_def TripleStoreTransaction_commit_def
      TripleStoreTransaction_cancel_def)

theorem transact_commits_or_cancels_witness:
  "DB_transact emptyDB
      (\<lambda>tx. DBTransaction_insert equalityOnly ''id1'' tx ''todos'' (JObj [(''title'', JStr ''x'')]) None)
      None
     = (Inr (1, ''c1''),
        emptyDB\<lparr>tripleStore :=
          emptyStore\<lparr>storage :=
            [(''default'',
              [\<lparr>row_id = ''todos#id1'', attribute = [S ''_collection''],
                row_value = JStr ''todos'', timestamp = (1, ''c1''), expired = False\<rparr>,
               \<lparr>row_id = ''todos#id1'', attribute = [S ''todos'', S ''title''],
                row_value = JStr ''x'', timestamp = (1, ''c1''), expired = False\<rparr>])],
            clock := 1\<rparr>\<rparr>)
   \<and> transactCallback emptyDB
      (\<lambda>tx. case DBTransaction_insert equalityOnly ''id1'' tx ''todos''
                    (JObj [(''title'', JStr ''x'')]) None of
               (r, tx') \<Rightarrow> (Inl (Error ''boom''), tx'))
      (beginTransaction (tripleStore emptyDB) None)
     = (Inl (Error ''boom''),
        \<lparr>txStorage =
            [(''default'',
              [\<lparr>row_id = ''todos#id1'', attribute = [S ''_collection''],
                row_value = JStr ''todos'', timestamp = (1, ''c1''), expired = False\<rparr>,
               \<lparr>row_id = ''todos#id1'', attribute = [S ''todos'', S ''title''],
                row_value = JStr ''x'', timestamp = (1, ''c1''), expired = False\<rparr>])],
          txMetadata = [], readScope = [''default''], writeScope = [''default''],
          txTimestamp = (1, ''c1''), isCanceled = True\<rparr>)
   \<and> DB_transact emptyDB
      (\<lambda>tx. case DBTransaction_insert equalityOnly ''id1'' tx ''todos''
                    (JObj [(''title'', JStr ''x'')]) None of
               (r, tx') \<Rightarrow> (Inl (Error ''boom''), tx'))
      None
     = (Inl (Error ''boom''), emptyDB)"
proof -
  define inserted where
    "inserted = snd (DBTransaction_insert equalityOnly ''id1''
               \<lparr>storeTx = beginTransaction (tripleStore emptyDB) None,
                tx_variables = Some (db_variables emptyDB)\<rparr>
               ''todos'' (JObj [(''title'', JStr ''x'')]) None)"
  have ok: "DBTransaction_insert equalityOnly ''id1''
               \<lparr>storeTx = beginTransaction (tripleStore emptyDB) None,
                tx_variables = Some (db_variables emptyDB)\<rparr>
               ''todos'' (JObj [(''title'', JStr ''x'')]) None
            = (Inr (), inserted)"
    unfolding inserted_def by code_simp
  have thrown: "(case DBTransaction_insert equalityOnly ''id1''
               \<lparr>storeTx = beginTransaction (tripleStore emptyDB) None,
                tx_variables = Some (db_variables emptyDB)\<rparr>
               ''todos'' (JObj [(''title'', JStr ''x'')]) None of
               (r, tx') \<Rightarrow> (Inl (Error ''boom''), tx'))
            = (Inl (Error ''boom''), inserted)"
    by (simp add: ok)
  have staged: "storeTx inserted =
        \<lparr>txStorage =
            [(''default'',
              [\<lparr>row_id = ''todos#id1'', attribute = [S ''_collection''],
                row_value = JStr ''todos'', timestamp = (1, ''c1''), expired = False\<rparr>,
               \<lparr>row_id = ''todos#id1'', attribute = [S ''todos'', S ''title''],
                row_value = JStr ''x'', timestamp = (1, ''c1''), expired = False\<rparr>])],
          txMetadata = [], readScope = [''default''], writeScope = [''default''],
          txTimestamp = (1, ''c1''), isCanceled = False\<rparr>"
    unfolding inserted_def by code_simp
  have committed: "DBTransaction_commit (tripleStore emptyDB) inserted =
          emptyStore\<lparr>storage :=
            [(''default'',
              [\<lparr>row_id = ''todos#id1'', attribute = [S ''_collection''],
                row_value = JStr ''todos'', timestamp = (1, ''c1''), expired = False\<rparr>,
               \<lparr>row_id = ''todos#id1'', attribute = [S ''todos'', S ''title''],
                row_value = JStr ''x'', timestamp = (1, ''c1''), expired = False\<rparr>])],
            clock := 1\<rparr>"
    unfolding inserted_def by code_simp
  from transact_commits_or_cancels
         [of "\<lambda>tx. DBTransaction_insert equalityOnly ''id1'' tx ''todos''
                      (JObj [(''title'', JStr ''x'')]) None"
             emptyDB None "()" inserted] ok
  have first: "DB_transact emptyDB
      (\<lambda>tx. DBTransaction_insert equalityOnly ''id1'' tx ''todos'' (JObj [(''title'', JStr ''x'')]) None)
      None
     = (Inr (txTimestamp (storeTx inserted)),
        emptyDB\<lparr>tripleStore := DBTransaction_commit (tripleStore emptyDB) inserted\<rparr>)"
    by blast
  from transact_commits_or_cancels
         [of "\<lambda>tx. case DBTransaction_insert equalityOnly ''id1'' tx ''todos''
                      (JObj [(''title'', JStr ''x'')]) None of
                 (r, tx') \<Rightarrow> (Inl (Error ''boom''), tx')"
             emptyDB None _ inserted "Error ''boom''"] thrown
  have second: "transactCallback emptyDB
      (\<lambda>tx. case DBTransaction_insert equalityOnly ''id1'' tx ''todos''
                    (JObj [(''title'', JStr ''x'')]) None of
               (r, tx') \<Rightarrow> (Inl (Error ''boom''), tx'))
      (beginTransaction (tripleStore emptyDB) None)
     = (Inl (Error ''boom''), storeTx (DBTransaction_cancel inserted))"
    and third: "DB_transact emptyDB
      (\<lambda>tx. case DBTransaction_insert equalityOnly ''id1'' tx ''todos''
                    (JObj [(''title'', JStr ''x'')]) None of
               (r, tx') \<Rightarrow> (Inl (Error ''boom''), tx'))
      None
     = (Inl (Error ''boom''), emptyDB)"
    by blast+
  show ?thesis
    unfolding first second third committed
    by (simp add: staged DBTransaction_cancel_def TripleStoreTransaction_cancel_def)
qed

section \<open>Migrations\<close>

text \<open>
  Claim C3. For every migration \<open>m\<close>, direction \<open>d\<close> and current schema version
  \<open>dbVersionOf db\<close>, \<^verbatim>\<open>migrate\<close> applies the \<^verbatim>\<open>up\<close> operations of \<open>m\<close> exactly when
  \<open>d\<close> is up and \<^verbatim>\<open>m.parent\<close> is the current version (setting the version to
  \<^verbatim>\<open>m.version\<close> when they succeed), applies the \<^verbatim>\<open>down\<close> operations exactly when \<open>d\<close>
  is down and \<^verbatim>\<open>m.version\<close> is the current version (setting the version to
  \<^verbatim>\<open>m.parent\<close>), and otherwise skips \<open>m\<close>, going on to the next migration with the
  database unchanged.
\<close>

theorem migrate_gate:
  "migrate db (m # ms) d =
     (if d = Up \<and> parent m = dbVersionOf db then
        (case applyRemoteTransaction db (up m) of
           (Inl e, db') \<Rightarrow> (Inl e, db')
         | (Inr t, db') \<Rightarrow>
             migrate
               (db'\<lparr>tripleStore :=
                     TripleStore_updateMetadataTuples (tripleStore db')
                       [(''_schema'', [S ''version''], TJson (JNum (migration_version m)))]\<rparr>)
               ms d)
      else if d = Down \<and> migration_version m = dbVersionOf db then
        (case applyRemoteTransaction db (down m) of
           (Inl e, db') \<Rightarrow> (Inl e, db')
         | (Inr t, db') \<Rightarrow>
             migrate
               (db'\<lparr>tripleStore :=
                     TripleStore_updateMetadataTuples (tripleStore db')
                       [(''_schema'', [S ''version''], TJson (JNum (parent m)))]\<rparr>)
               ms d)
      else migrate db ms d)"
  by (cases d)
    (simp_all add: canMigrate_def operationsOf_def versionTuple_def split: prod.split sum.split)


theorem migrate_gate_witness:
  "migrate emptyDB [todosMigration] Up = (Inr (), migratedDB)
   \<and> migrate emptyDB [todosMigration] Down = (Inr (), emptyDB)
   \<and> migrate migratedDB [todosMigration] Up = (Inr (), migratedDB)
   \<and> migrate migratedDB [todosMigration] Down =
       (Inr (),
        \<lparr> tripleStore =
            \<lparr> storage = [(''default'', [])],
              metadata = [(''_schema'', [S ''version''], TJson (JNum 0))],
              clock = 2, clientId = ''c1'' \<rparr>,
          db_variables = [] \<rparr>)"
  using migrate_gate [of emptyDB todosMigration "[]" Up]
    migrate_gate [of emptyDB todosMigration "[]" Down]
    migrate_gate [of migratedDB todosMigration "[]" Up]
    migrate_gate [of migratedDB todosMigration "[]" Down]
  by code_simp

text \<open>
  Claim C2, evaluated on the code. The operations of a migration run in one transaction
  of the store, and when one of them throws nothing is applied and the version is not
  advanced. But the version tuple is not written in that transaction: the transaction
  commits the operations with the version still at its old value, and \<^verbatim>\<open>migrate\<close>
  writes the version afterwards with a call of \<^verbatim>\<open>updateMetadataTuples\<close> on the store
  (the source marks it: "TODO: move this into the transaction").
\<close>

theorem migrate_version_written_after_commit:
  "applyRemoteTransaction emptyDB (up todosMigration) = (Inr (1, ''c1''), committedDB)
   \<and> dbVersionOf committedDB = 0
   \<and> migrate emptyDB [todosMigration] Up =
       (Inr (),
        committedDB\<lparr>tripleStore :=
          TripleStore_updateMetadataTuples (tripleStore committedDB)
            [(''_schema'', [S ''version''], TJson (JNum 1))]\<rparr>)
   \<and> dbVersionOf (snd (migrate emptyDB [todosMigration] Up)) = 1
   \<and> migrate emptyDB
         [todosMigration\<lparr>up := up todosMigration @ [UnrecognizedOperation ''truncate'']\<rparr>] Up =
       (Inl (InvalidMigrationOperationError ''The operation truncate is not recognized.''),
        emptyDB)"
  by code_simp


section \<open>Inserting documents\<close>

lemma txTimestamp_beginTransaction:
  "txTimestamp (beginTransaction store scope) = (Suc (clock store), clientId store)"
  by (simp add: beginTransaction_def)

lemma txTimestamp_Document_insert:
  "txTimestamp (Document_insert tx entity doc c) = txTimestamp tx"
  by (simp add: Document_insert_def insertTriples_def)

text \<open>
  Claim C8, as the code has it. An insert whose id contains \<^verbatim>\<open>#\<close> fails with
  \<^verbatim>\<open>InvalidEntityIdError\<close> and leaves the database as it was. When the id is omitted
  and the collection has no write rules, or the document satisfies them with every
  variable of the rules resolved, the document is written under the generated id and
  the insert returns the commit timestamp, the store's next tick.
\<close>

theorem insert_rejects_separator_and_generates_id:
  "(CHR ''#'' \<in> set i
      \<longrightarrow> DB_insert cmp nanoid db c doc (Some i) scope
            = (Inl (InvalidEntityIdError i ''Id cannot include #.''), db))
   \<and> ((case writeRulesOf (DB_getCollectionSchema db c) of
          None \<Rightarrow> True
        | Some writeRules \<Rightarrow>
            writeRules = []
            \<or> (\<exists>wh. replaceVariablesInFilterStatements (concat (map rule_filter writeRules))
                        (db_variables db) = Inr wh
                    \<and> doesEntityObjMatchWhere cmp (objectToTimestampedObject doc) wh
                         (DB_getCollectionSchema db c)))
      \<longrightarrow> DB_insert cmp nanoid db c doc None scope
            = (Inr (Suc (clock (tripleStore db)), clientId (tripleStore db)),
               db\<lparr>tripleStore :=
                    TripleStoreTransaction_commit (tripleStore db)
                      (Document_insert (beginTransaction (tripleStore db) scope)
                         (c @ ''#'' @ nanoid) doc c)\<rparr>))"
  by (auto simp add: DB_insert_def validateId_def validateExternalId_def ID_SEPARATOR_def
      checkWriteRules_def replaceVariablesInQuery_def TripleStore_transact_def
      appendCollectionToId_def txTimestamp_beginTransaction txTimestamp_Document_insert
      split: option.splits sum.splits)

theorem insert_rejects_separator_and_generates_id_witness:
  "CHR ''#'' \<in> set ''a#b''
   \<and> DB_insert equalityOnly ''t1'' migratedDB ''todos''
        (JObj [(''title'', JStr ''milk''), (''done'', JBool False)]) (Some ''a#b'') None
      = (Inl (InvalidEntityIdError ''a#b'' ''Id cannot include #.''), migratedDB)
   \<and> writeRulesOf (DB_getCollectionSchema migratedDB ''todos'')
      = Some [\<lparr>rule_filter = [FilterStatement ''done'' ''='' (JBool False)], description = None\<rparr>]
   \<and> DB_insert equalityOnly ''t1'' migratedDB ''todos''
        (JObj [(''title'', JStr ''milk''), (''done'', JBool False)]) None None
      = (Inr (2, ''c1''),
         migratedDB\<lparr>tripleStore :=
           (tripleStore migratedDB)\<lparr>storage := [(''default'', todoTriples)], clock := 2\<rparr>\<rparr>)"
proof -
  have sep: "CHR ''#'' \<in> set ''a#b''" by simp
  have rules: "writeRulesOf (DB_getCollectionSchema migratedDB ''todos'')
      = Some [\<lparr>rule_filter = [FilterStatement ''done'' ''='' (JBool False)], description = None\<rparr>]"
    by code_simp
  have passes: "replaceVariablesInFilterStatements
           (concat (map rule_filter
              [\<lparr>rule_filter = [FilterStatement ''done'' ''='' (JBool False)], description = None\<rparr>]))
           (db_variables migratedDB) = Inr [FilterStatement ''done'' ''='' (JBool False)]
        \<and> doesEntityObjMatchWhere equalityOnly
             (objectToTimestampedObject (JObj [(''title'', JStr ''milk''), (''done'', JBool False)]))
             [FilterStatement ''done'' ''='' (JBool False)]
             (DB_getCollectionSchema migratedDB ''todos'')"
    by code_simp
  have committed: "migratedDB\<lparr>tripleStore :=
                    TripleStoreTransaction_commit (tripleStore migratedDB)
                      (Document_insert (beginTransaction (tripleStore migratedDB) None)
                         (''todos'' @ ''#'' @ ''t1'')
                         (JObj [(''title'', JStr ''milk''), (''done'', JBool False)]) ''todos'')\<rparr>
     = migratedDB\<lparr>tripleStore :=
         (tripleStore migratedDB)\<lparr>storage := [(''default'', todoTriples)], clock := 2\<rparr>\<rparr>"
    by code_simp
  have tick: "(Suc (clock (tripleStore migratedDB)), clientId (tripleStore migratedDB)) = (2, ''c1'')"
    by code_simp
  from insert_rejects_separator_and_generates_id
         [of "''a#b''" equalityOnly "''t1''" migratedDB "''todos''"
             "JObj [(''title'', JStr ''milk''), (''done'', JBool False)]" None]
    sep rules passes committed tick
  show ?thesis by (auto simp del: One_nat_def)
qed

text \<open>
  The claim as the spec states it promises the commit timestamp whenever the id is
  omitted. A document that the write rules of its collection reject is not inserted,
  with or without an id.
\<close>

theorem insert_without_id_rejected_by_write_rule:
  "DB_insert equalityOnly ''gen1'' migratedDB ''todos''
       (JObj [(''title'', JStr ''milk''), (''done'', JBool True)]) None None
     = (Inl (WriteRuleError ''Insert does not match write rules''), migratedDB)"
  by code_simp


section \<open>Fetching by id\<close>

text \<open>
  Claim C4, evaluated on the code. Without an entity of that id \<^verbatim>\<open>fetchById\<close> returns
  \<^verbatim>\<open>null\<close>, and in a collection without read rules it returns the plain document. In a
  collection with read rules that the entity satisfies, both \<^verbatim>\<open>DB.fetchById\<close> and
  \<^verbatim>\<open>DBTransaction.fetchById\<close> return the entity as the store materialises it, every
  leaf still paired with its timestamp: the branch returns \<^verbatim>\<open>entity\<close> where the last line
  of the function returns \<^verbatim>\<open>timestampedObjectToPlainObject(entity)\<close>.
\<close>

theorem fetchById_with_read_rules_keeps_timestamps:
  "DB_fetchById equalityOnly populatedDB ''notes'' ''n1''
     = Inr (Some (JObj [(''public'', JArr [JBool True, JArr [JNum 3, JStr ''c1'']])]))
   \<and> timestampedObjectToPlainObject
        (JObj [(''public'', JArr [JBool True, JArr [JNum 3, JStr ''c1'']])])
     = JObj [(''public'', JBool True)]
   \<and> DBTransaction_fetchById equalityOnly
        \<lparr>storeTx = beginTransaction (tripleStore populatedDB) None, tx_variables = Some []\<rparr>
        ''notes'' ''n1''
     = Inr (Some (JObj [(''public'', JArr [JBool True, JArr [JNum 3, JStr ''c1'']])]))
   \<and> DB_fetchById equalityOnly populatedDB ''todos'' ''t1''
     = Inr (Some (JObj [(''title'', JStr ''milk''), (''done'', JBool False)]))
   \<and> DB_fetchById equalityOnly populatedDB ''todos'' ''missing'' = Inr None"
  by code_simp

section \<open>Updating documents\<close>

text \<open>
  Claim C5, evaluated on the code. With a schema present, assigning to a property the
  schema does not recognize throws and stages nothing, and the update it is part of
  leaves the database as it was. What is thrown is JavaScript's plain \<^verbatim>\<open>Error\<close> with
  the message "Cannot set unrecognized property ...", not an error class of its own (the
  source marks it: "TODO use correct Triplit Error").
\<close>

theorem unrecognized_property_throws_plain_error:
  "proxySet attributeSchema
       (createUpdateProxy (JObj [(''title'', JStr ''milk''), (''done'', JBool False)])
          (DB_getCollectionSchema populatedDB ''todos'') [])
       ''nickname'' (JStr ''Bob'') []
     = (Inl (Error ''Cannot set unrecognized property /nickname to Bob''), [])
   \<and> DB_update attributeSchema equalityOnly populatedDB ''todos'' ''t1'' setNickname None
     = (Inl (Error ''Cannot set unrecognized property /nickname to Bob''), populatedDB)"
  by code_simp

text \<open>
  Claim C6, evaluated on the code. In a collection with write rules and no read rules
  (\<^verbatim>\<open>files\<close>), an update whose post-update value violates the write rule
  \<^verbatim>\<open>locked != true\<close> raises \<^verbatim>\<open>WriteRuleError\<close> and the database is as it was before.
  In a collection that has read rules as well (\<^verbatim>\<open>docs\<close>) the same update of the same
  entity commits: \<^verbatim>\<open>fetchById\<close> returns the entity with its timestamps there,
  \<^verbatim>\<open>update\<close> hands it to \<^verbatim>\<open>objectToTimestampedObject\<close> as if it were a plain
  document, and the write rule is evaluated on leaves that are
  \<^verbatim>\<open>[value, timestamp]\<close> pairs instead of values, so \<^verbatim>\<open>locked != true\<close> holds of
  it. The triple \<^verbatim>\<open>locked = true\<close> is stored although the post-update value of the
  entity violates the write rule.
\<close>

theorem update_with_read_rules_commits_violation:
  "writeRulesOf (DB_getCollectionSchema guardedDB ''docs'')
     = Some [\<lparr>rule_filter = [FilterStatement ''locked'' ''!='' (JBool True)], description = None\<rparr>]
   \<and> writeRulesOf (DB_getCollectionSchema guardedDB ''files'')
     = Some [\<lparr>rule_filter = [FilterStatement ''locked'' ''!='' (JBool True)], description = None\<rparr>]
   \<and> DB_fetchById equalityOperators guardedDB ''files'' ''f1''
     = Inr (Some (JObj [(''public'', JBool True), (''locked'', JBool False)]))
   \<and> DB_update attributeSchema equalityOperators guardedDB ''files'' ''f1'' lock None
     = (Inl (WriteRuleError ''Update does not match write rules''), guardedDB)
   \<and> DB_fetchById equalityOperators guardedDB ''docs'' ''d1''
     = Inr (Some (JObj [(''public'', JArr [JBool True, JArr [JNum 2, JStr ''c1'']]),
                        (''locked'', JArr [JBool False, JArr [JNum 2, JStr ''c1'']])]))
   \<and> DB_update attributeSchema equalityOperators guardedDB ''docs'' ''d1'' lock None
     = (Inr (4, ''c1''),
        guardedDB\<lparr>tripleStore :=
          (tripleStore guardedDB)\<lparr>storage :=
            [(''default'',
              guardedTriples ''docs'' ''d1'' 2 @ guardedTriples ''files'' ''f1'' 3
              @ [\<lparr>row_id = ''docs#d1'', attribute = [S ''docs'', S ''locked''],
                  row_value = JBool True, timestamp = (4, ''c1''), expired = False\<rparr>])],
            clock := 4\<rparr>\<rparr>)
   \<and> DB_fetchById equalityOperators
        (snd (DB_update attributeSchema equalityOperators guardedDB ''docs'' ''d1'' lock None))
        ''docs'' ''d1''
     = Inr (Some (JObj [(''public'', JArr [JBool True, JArr [JNum 2, JStr ''c1'']]),
                        (''locked'', JArr [JBool True, JArr [JNum 4, JStr ''c1'']])]))
   \<and> \<not> doesEntityObjMatchWhere equalityOperators
          (objectToTimestampedObject (JObj [(''public'', JBool True), (''locked'', JBool True)]))
          [FilterStatement ''locked'' ''!='' (JBool True)]
          (DB_getCollectionSchema guardedDB ''docs'')"
  by code_simp


section \<open>Renaming an attribute\<close>

lemma set_transformTripleAttribute:
  "set (transformTripleAttribute ts [S c, S p] [S c, S q]) = renamed c q ` set ts"
  by (auto simp add: transformTripleAttribute_def renamed_def numeral_2_eq_2)

lemma scopedTriples_single_map:
  "scopedTriples (map (\<lambda>(k', ts). if k' \<in> set [k] then (k', f ts) else (k', ts)) st) [k'] =
     (if k' = k then concat (map (\<lambda>e. f (snd e)) (filter (\<lambda>(kk, ts). kk = k) st))
      else scopedTriples st [k'])"
  by (induction st) (auto simp add: scopedTriples_def)

lemma txStorage_renameInScope:
  "txStorage (renameInScope c p q k tx) =
     map (\<lambda>(k', ts). if k' \<in> set [k]
            then (k', filter (\<lambda>t. t \<notin> set (filter (\<lambda>t. prefix [S c, S p] (attribute t)) (scopedTriples (txStorage tx) [k]))) ts
                     @ filter (\<lambda>t. t \<notin> set (filter (\<lambda>t. t \<notin> set (filter (\<lambda>t. prefix [S c, S p] (attribute t)) (scopedTriples (txStorage tx) [k]))) ts))
                         (remdups (transformTripleAttribute (filter (\<lambda>t. prefix [S c, S p] (attribute t)) (scopedTriples (txStorage tx) [k])) [S c, S p] [S c, S q])))
            else (k', ts))
       (txStorage tx)"
  by (simp add: renameInScope_def withScope_def findByAttribute_def insertTriples_def
      deleteTriples_def split_def comp_def)

lemma others_renameInScope:
  "txMetadata (renameInScope c p q k tx) = txMetadata tx"
  "readScope (renameInScope c p q k tx) = readScope tx"
  "writeScope (renameInScope c p q k tx) = writeScope tx"
  by (simp_all add: renameInScope_def withScope_def findByAttribute_def insertTriples_def
      deleteTriples_def)

lemma set_scoped_renameInScope:
  "set (scopedTriples (txStorage (renameInScope c p q k tx)) [k']) =
     (if k' = k then rewritten c p q (set (scopedTriples (txStorage tx) [k]))
      else set (scopedTriples (txStorage tx) [k']))"
proof (cases "k' = k")
  case False
  then show ?thesis
    unfolding txStorage_renameInScope scopedTriples_single_map by simp
next
  case True
  define cur where "cur = filter (\<lambda>t. prefix [S c, S p] (attribute t)) (scopedTriples (txStorage tx) [k])"
  define f where "f = (\<lambda>ts. filter (\<lambda>t. t \<notin> set cur) ts
                     @ filter (\<lambda>t. t \<notin> set (filter (\<lambda>t. t \<notin> set cur) ts))
                         (remdups (transformTripleAttribute cur [S c, S p] [S c, S q])))"
  have setf: "set (f ts) = (set ts - set cur) \<union> renamed c q ` set cur" for ts
    by (auto simp add: f_def set_transformTripleAttribute)
  have st: "txStorage (renameInScope c p q k tx) =
      map (\<lambda>(k', ts). if k' \<in> set [k] then (k', f ts) else (k', ts)) (txStorage tx)"
    unfolding txStorage_renameInScope f_def cur_def by simp
  have T: "set (scopedTriples (txStorage tx) [k])
        = (\<Union>e \<in> set (filter (\<lambda>(kk, ts). kk = k) (txStorage tx)). set (snd e))"
    by (auto simp add: scopedTriples_def)
  have "set (scopedTriples (txStorage (renameInScope c p q k tx)) [k])
        = (\<Union>e \<in> set (filter (\<lambda>(kk, ts). kk = k) (txStorage tx)). set (f (snd e)))"
    unfolding st scopedTriples_single_map by auto
  also have "\<dots> = rewritten c p q (set (scopedTriples (txStorage tx) [k]))"
  proof (cases "filter (\<lambda>(kk, ts). kk = k) (txStorage tx) = []")
    case True
    then show ?thesis by (simp add: T rewritten_def)
  next
    case False
    then obtain e0 where "e0 \<in> set (filter (\<lambda>(kk, ts). kk = k) (txStorage tx))"
      by (cases "filter (\<lambda>(kk, ts). kk = k) (txStorage tx)") auto
    then have "(\<Union>e \<in> set (filter (\<lambda>(kk, ts). kk = k) (txStorage tx)). set (f (snd e)))
        = ((\<Union>e \<in> set (filter (\<lambda>(kk, ts). kk = k) (txStorage tx)). set (snd e)) - set cur)
          \<union> renamed c q ` set cur"
      unfolding setf by blast
    also have "\<dots> = rewritten c p q (set (scopedTriples (txStorage tx) [k]))"
      unfolding T[symmetric] rewritten_def cur_def by auto
    finally show ?thesis .
  qed
  finally show ?thesis using True by simp
qed

lemma prefix_renamed:
  "prefix [S c, S p] (attribute (renamed c q t)) \<longleftrightarrow> p = q"
  by (simp add: renamed_def)

lemma renamed_same:
  "prefix [S c, S p] (attribute t) \<Longrightarrow> renamed c p t = t"
  by (auto simp add: renamed_def prefix_def)

lemma rewritten_idem:
  "rewritten c p q (rewritten c p q T) = rewritten c p q T"
proof (cases "p = q")
  case True
  have "rewritten c p p T = T"
    by (auto simp add: rewritten_def renamed_same image_iff)
  with True show ?thesis by simp
next
  case False
  then have none: "\<And>t. t \<in> rewritten c p q T \<Longrightarrow> \<not> prefix [S c, S p] (attribute t)"
    by (auto simp add: rewritten_def prefix_renamed)
  have "rewritten c p q (rewritten c p q T)
      = {t \<in> rewritten c p q T. \<not> prefix [S c, S p] (attribute t)}
        \<union> renamed c q ` {t \<in> rewritten c p q T. prefix [S c, S p] (attribute t)}"
    by (rule rewritten_def)
  also have "{t \<in> rewritten c p q T. prefix [S c, S p] (attribute t)} = {}"
    using none by blast
  also have "{t \<in> rewritten c p q T. \<not> prefix [S c, S p] (attribute t)} = rewritten c p q T"
    using none by blast
  finally show ?thesis by simp
qed

lemma set_scoped_fold_renameInScope:
  "set (scopedTriples (txStorage (fold (renameInScope c p q) ks tx)) [k]) =
     (if k \<in> set ks then rewritten c p q (set (scopedTriples (txStorage tx) [k]))
      else set (scopedTriples (txStorage tx) [k]))"
proof (induction ks arbitrary: tx)
  case Nil
  show ?case by simp
next
  case (Cons x xs)
  show ?case
    by (simp add: Cons.IH set_scoped_renameInScope rewritten_idem)
qed

lemma txMetadata_fold_renameInScope:
  "txMetadata (fold (renameInScope c p q) ks tx) = txMetadata tx"
  by (induction ks arbitrary: tx) (simp_all add: others_renameInScope)

lemma scopedTriples_no_key:
  "k \<notin> fst ` set st \<Longrightarrow> scopedTriples st [k] = []"
  by (induction st) (auto simp add: scopedTriples_def)

lemma txStorage_renameSchemaTuples:
  "txStorage (renameSchemaTuples c p q tx) = txStorage tx"
  by (simp add: renameSchemaTuples_def updateMetadataTuples_def deleteMetadataTuples_def)

lemma renameAttribute_triples:
  "set (scopedTriples (txStorage (storeTx (renameAttribute tx c p q))) [k]) =
     rewritten c p q (set (scopedTriples (txStorage (storeTx tx)) [k]))"
proof (cases "k \<in> fst ` set (txStorage (storeTx tx))")
  case True
  then show ?thesis
    by (simp add: renameAttribute_def set_scoped_fold_renameInScope txStorage_renameSchemaTuples)
next
  case False
  then show ?thesis
    by (simp add: renameAttribute_def set_scoped_fold_renameInScope txStorage_renameSchemaTuples
        scopedTriples_no_key rewritten_def)
qed


lemma tupleKey_eq: "(\<lambda>(e, a, v). (e, a)) = tupleKey"
  by (auto simp add: tupleKey_def)

lemma set_upsertTuple:
  "set (upsertTuple u md) = {t \<in> set md. tupleKey t \<noteq> tupleKey u} \<union> {u}"
  by (cases u) (auto simp add: upsertTuple_def tupleKey_def)

lemma set_upsertTuples:
  "distinct (map tupleKey us) \<Longrightarrow>
   set (upsertTuples us md) = {t \<in> set md. tupleKey t \<notin> tupleKey ` set us} \<union> set us"
proof (induction us arbitrary: md)
  case Nil
  show ?case by (simp add: upsertTuples_def)
next
  case (Cons u us)
  then have IH: "set (upsertTuples us (upsertTuple u md))
      = {t \<in> set (upsertTuple u md). tupleKey t \<notin> tupleKey ` set us} \<union> set us"
    by simp
  have "upsertTuples (u # us) md = upsertTuples us (upsertTuple u md)"
    by (simp add: upsertTuples_def)
  with IH Cons.prems show ?case
    by (auto simp add: set_upsertTuple)
qed

lemma set_deleteTuples:
  "set (deleteTuples (map tupleKey (filter P md)) md) = {t \<in> set md. tupleKey t \<notin> tupleKey ` {t \<in> set md. P t}}"
  by (auto simp add: deleteTuples_def tupleKey_def image_iff)

lemma readTuples_schemaMatch:
  "readTuples md ''_schema'' [S ''collections'', S c, S ''attributes'', S p] = filter (schemaMatch c p) md"
  unfolding readTuples_def by (rule filter_cong) (auto simp add: schemaMatch_def)

lemma schemaMatch_key:
  "tupleKey t = tupleKey t' \<Longrightarrow> schemaMatch c p t = schemaMatch c p t'"
  by (cases t; cases t') (simp add: tupleKey_def schemaMatch_def)

lemma splice_match:
  "prefix [x0, x1, x2, x3] a \<Longrightarrow> spliceNewPath a q = a[3 := S q]"
  by (auto simp add: spliceNewPath_def prefix_def numeral_3_eq_3)

lemma splice_inj:
  "prefix [x0, x1, x2, x3] a \<Longrightarrow> prefix [x0, x1, x2, x3] b
     \<Longrightarrow> spliceNewPath a q = spliceNewPath b q \<Longrightarrow> a = b"
  by (auto simp add: spliceNewPath_def prefix_def numeral_3_eq_3)

lemma schemaMatch_splice:
  "schemaMatch c p (e, a, v) \<Longrightarrow> schemaMatch c p (e, spliceNewPath a q, v) \<longleftrightarrow> p = q"
  by (auto simp add: schemaMatch_def spliceNewPath_def prefix_def numeral_3_eq_3)

lemma spliced_keys_inj:
  assumes "distinct (map tupleKey md)"
  shows "inj_on (\<lambda>t. tupleKey (case t of (e, a, v) \<Rightarrow> (e, spliceNewPath a q, v)))
           (set (filter (schemaMatch c p) md))"
proof (rule inj_onI)
  fix t t'
  assume t: "t \<in> set (filter (schemaMatch c p) md)"
    and t': "t' \<in> set (filter (schemaMatch c p) md)"
    and eq: "tupleKey (case t of (e, a, v) \<Rightarrow> (e, spliceNewPath a q, v))
             = tupleKey (case t' of (e, a, v) \<Rightarrow> (e, spliceNewPath a q, v))"
  obtain e a v where te: "t = (e, a, v)" by (cases t)
  obtain e' a' v' where te': "t' = (e', a', v')" by (cases t')
  from t te have m: "prefix [S ''collections'', S c, S ''attributes'', S p] a"
    by (simp add: schemaMatch_def)
  from t' te' have m': "prefix [S ''collections'', S c, S ''attributes'', S p] a'"
    by (simp add: schemaMatch_def)
  from eq te te' have ee: "e = e'" and ss: "spliceNewPath a q = spliceNewPath a' q"
    by (simp_all add: tupleKey_def)
  from m m' ss have "a = a'" by (rule splice_inj)
  with ee te te' have keys: "tupleKey t = tupleKey t'"
    by (simp add: tupleKey_def)
  from assms have inj: "inj_on tupleKey (set md)"
    by (simp add: distinct_map)
  from t t' have "t \<in> set md" "t' \<in> set md" by simp_all
  with inj keys show "t = t'" by (rule inj_onD)
qed

lemma metadata_renameSchemaTuples:
  assumes "distinct (map tupleKey md)"
  shows "set (upsertTuples (map (\<lambda>(e, a, v). (e, spliceNewPath a q, v)) (filter (schemaMatch c p) md))
           (deleteTuples (map tupleKey (filter (schemaMatch c p) md)) md))
       = {t \<in> {t \<in> set md. \<not> schemaMatch c p t}.
            tupleKey t \<notin> tupleKey ` set (map (\<lambda>(e, a, v). (e, spliceNewPath a q, v)) (filter (schemaMatch c p) md))}
         \<union> set (map (\<lambda>(e, a, v). (e, spliceNewPath a q, v)) (filter (schemaMatch c p) md))"
proof -
  have d1: "distinct (map tupleKey (filter (schemaMatch c p) md))"
    using assms by (rule distinct_map_filter)
  have d2: "distinct (filter (schemaMatch c p) md)"
    using assms by (simp add: distinct_map)
  have d: "distinct (map tupleKey (map (\<lambda>(e, a, v). (e, spliceNewPath a q, v)) (filter (schemaMatch c p) md)))"
    unfolding map_map distinct_map comp_def
    using d2 spliced_keys_inj [OF assms, of q c p] by blast
  have member: "tupleKey t \<in> tupleKey ` {t \<in> set md. schemaMatch c p t} \<longleftrightarrow> schemaMatch c p t" if "t \<in> set md" for t
  proof
    assume "tupleKey t \<in> tupleKey ` {t \<in> set md. schemaMatch c p t}"
    then obtain u where "schemaMatch c p u" "tupleKey t = tupleKey u" by blast
    then show "schemaMatch c p t" using schemaMatch_key by blast
  next
    assume "schemaMatch c p t"
    with that show "tupleKey t \<in> tupleKey ` {t \<in> set md. schemaMatch c p t}" by blast
  qed
  have del: "set (deleteTuples (map tupleKey (filter (schemaMatch c p) md)) md) = {t \<in> set md. \<not> schemaMatch c p t}"
    unfolding set_deleteTuples using member by blast
  show ?thesis
    unfolding set_upsertTuples [OF d] del ..
qed

lemma metadata_renameAttribute:
  "txMetadata (storeTx (renameAttribute tx c p q)) =
     (if readTuples (txMetadata (storeTx tx)) ''_schema'' [] = [] then txMetadata (storeTx tx)
      else upsertTuples
             (map (\<lambda>(e, a, v). (e, spliceNewPath a q, v))
                (filter (schemaMatch c p) (txMetadata (storeTx tx))))
             (deleteTuples (map tupleKey (filter (schemaMatch c p) (txMetadata (storeTx tx))))
                (txMetadata (storeTx tx))))"
  by (simp add: renameAttribute_def txMetadata_fold_renameInScope DBTransaction_getSchema_def
      readSchema_def readSchemaFrom_def renameSchemaTuples_def readMetadataTuples_def
      updateMetadataTuples_def deleteMetadataTuples_def readTuples_schemaMatch tupleKey_eq)

lemma no_schema_no_match:
  "readTuples md ''_schema'' [] = [] \<Longrightarrow> t \<in> set md \<Longrightarrow> \<not> schemaMatch c p t"
  by (cases t) (auto simp add: readTuples_def schemaMatch_def filter_empty_conv)

lemma set_metadata_renameAttribute:
  assumes "distinct (map tupleKey (txMetadata (storeTx tx)))"
    and "readTuples (txMetadata (storeTx tx)) ''_schema'' [] \<noteq> []"
  shows "set (txMetadata (storeTx (renameAttribute tx c p q)))
       = {t \<in> {t \<in> set (txMetadata (storeTx tx)). \<not> schemaMatch c p t}.
            tupleKey t \<notin> tupleKey ` set (map (\<lambda>(e, a, v). (e, spliceNewPath a q, v))
                                         (filter (schemaMatch c p) (txMetadata (storeTx tx))))}
         \<union> set (map (\<lambda>(e, a, v). (e, spliceNewPath a q, v))
                  (filter (schemaMatch c p) (txMetadata (storeTx tx))))"
proof -
  from assms(2) have "txMetadata (storeTx (renameAttribute tx c p q))
      = upsertTuples
             (map (\<lambda>(e, a, v). (e, spliceNewPath a q, v))
                (filter (schemaMatch c p) (txMetadata (storeTx tx))))
             (deleteTuples (map tupleKey (filter (schemaMatch c p) (txMetadata (storeTx tx))))
                (txMetadata (storeTx tx)))"
    by (simp add: metadata_renameAttribute)
  then show ?thesis
    by (simp only: metadata_renameSchemaTuples [OF assms(1)])
qed

lemma renameAttribute_schema_rewritten:
  assumes "distinct (map tupleKey (txMetadata (storeTx tx)))"
    and "(''_schema'', a, v) \<in> set (txMetadata (storeTx tx))"
    and "prefix [S ''collections'', S c, S ''attributes'', S p] a"
  shows "(''_schema'', a[3 := S q], v) \<in> set (txMetadata (storeTx (renameAttribute tx c p q)))"
proof -
  have m: "schemaMatch c p (''_schema'', a, v)"
    using assms(3) by (simp add: schemaMatch_def)
  have ne: "readTuples (txMetadata (storeTx tx)) ''_schema'' [] \<noteq> []"
  proof
    assume "readTuples (txMetadata (storeTx tx)) ''_schema'' [] = []"
    from this assms(2) have "\<not> schemaMatch c p (''_schema'', a, v)"
      by (rule no_schema_no_match)
    with m show False by contradiction
  qed
  from assms(2) m have "(''_schema'', a, v) \<in> set (filter (schemaMatch c p) (txMetadata (storeTx tx)))"
    by simp
  then have "(case (''_schema'', a, v) of (e, a, v) \<Rightarrow> (e, spliceNewPath a q, v))
        \<in> set (map (\<lambda>(e, a, v). (e, spliceNewPath a q, v))
                 (filter (schemaMatch c p) (txMetadata (storeTx tx))))"
    unfolding set_map by (rule imageI)
  then have "(''_schema'', spliceNewPath a q, v)
        \<in> set (map (\<lambda>(e, a, v). (e, spliceNewPath a q, v))
                 (filter (schemaMatch c p) (txMetadata (storeTx tx))))"
    by (simp only: prod.case)
  then have "(''_schema'', spliceNewPath a q, v)
        \<in> set (txMetadata (storeTx (renameAttribute tx c p q)))"
    unfolding set_metadata_renameAttribute [OF assms(1) ne] by (rule UnI2)
  moreover from assms(3) have "spliceNewPath a q = a[3 := S q]"
    by (rule splice_match)
  ultimately show ?thesis by (simp only:)
qed

lemma renameAttribute_schema_old_gone:
  assumes "distinct (map tupleKey (txMetadata (storeTx tx)))"
    and "p \<noteq> q"
    and "t \<in> set (txMetadata (storeTx (renameAttribute tx c p q)))"
  shows "\<not> schemaMatch c p t"
proof (cases "readTuples (txMetadata (storeTx tx)) ''_schema'' [] = []")
  case True
  with assms(3) have "t \<in> set (txMetadata (storeTx tx))"
    by (simp add: metadata_renameAttribute)
  with True show ?thesis by (rule no_schema_no_match)
next
  case False
  from assms(3) show ?thesis
    unfolding set_metadata_renameAttribute [OF assms(1) False]
  proof (rule UnE)
    assume "t \<in> {t \<in> {t \<in> set (txMetadata (storeTx tx)). \<not> schemaMatch c p t}.
            tupleKey t \<notin> tupleKey ` set (map (\<lambda>(e, a, v). (e, spliceNewPath a q, v))
                                         (filter (schemaMatch c p) (txMetadata (storeTx tx))))}"
    then show ?thesis by (elim CollectE conjE)
  next
    assume "t \<in> set (map (\<lambda>(e, a, v). (e, spliceNewPath a q, v))
                    (filter (schemaMatch c p) (txMetadata (storeTx tx))))"
    then obtain u where uin: "u \<in> set (filter (schemaMatch c p) (txMetadata (storeTx tx)))"
        and tu: "t = (case u of (e, a, v) \<Rightarrow> (e, spliceNewPath a q, v))"
      unfolding set_map by (rule imageE)
    from uin have u: "schemaMatch c p u" by simp
    obtain e a v where ue: "u = (e, a, v)" by (cases u)
    from u ue have "schemaMatch c p (e, a, v)" by (simp only:)
    then have "schemaMatch c p (e, spliceNewPath a q, v) \<longleftrightarrow> p = q"
      by (rule schemaMatch_splice)
    with assms(2) have "\<not> schemaMatch c p (e, spliceNewPath a q, v)" by (simp only: simp_thms)
    with tu ue show ?thesis by simp
  qed
qed

text \<open>
  Claim C9, as the code has it. After \<^verbatim>\<open>rename_attribute\<close> with old path \<open>p\<close> and new
  path \<open>q\<close> in collection \<open>c\<close>, in every storage scope \<open>k\<close> the triples are those of
  before that are not under \<^verbatim>\<open>[c, p]\<close>, together with every triple that was under
  \<^verbatim>\<open>[c, p]\<close>, now with this prefix replaced by \<^verbatim>\<open>[c, q]\<close> and its entity id, value,
  timestamp and tombstone flag unchanged. Every \<^verbatim>\<open>_schema\<close> tuple of the attribute is
  there under the new path with its value, in a store that holds one value per metadata
  path. When \<open>q\<close> differs from \<open>p\<close>, no triple and no \<^verbatim>\<open>_schema\<close> tuple with the old
  prefix remains.
\<close>

theorem renameAttribute_rewrites_triples_and_schema:
  assumes "distinct (map tupleKey (txMetadata (storeTx tx)))"
  shows "(\<forall>k. set (scopedTriples (txStorage (storeTx (renameAttribute tx c p q))) [k])
            = {t \<in> set (scopedTriples (txStorage (storeTx tx)) [k]).
                 \<not> prefix [S c, S p] (attribute t)}
              \<union> (\<lambda>t. t\<lparr>attribute := [S c, S q] @ drop 2 (attribute t)\<rparr>)
                ` {t \<in> set (scopedTriples (txStorage (storeTx tx)) [k]).
                     prefix [S c, S p] (attribute t)})
       \<and> (p \<noteq> q \<longrightarrow>
            (\<forall>k. \<forall>t \<in> set (scopedTriples (txStorage (storeTx (renameAttribute tx c p q))) [k]).
               \<not> prefix [S c, S p] (attribute t)))
       \<and> (\<forall>a v. (''_schema'', a, v) \<in> set (txMetadata (storeTx tx))
                  \<and> prefix [S ''collections'', S c, S ''attributes'', S p] a
              \<longrightarrow> (''_schema'', a[3 := S q], v)
                    \<in> set (txMetadata (storeTx (renameAttribute tx c p q))))
       \<and> (p \<noteq> q \<longrightarrow>
            (\<forall>a v. (''_schema'', a, v) \<in> set (txMetadata (storeTx (renameAttribute tx c p q)))
               \<longrightarrow> \<not> prefix [S ''collections'', S c, S ''attributes'', S p] a))"
proof (intro conjI allI impI ballI)
  fix k
  show "set (scopedTriples (txStorage (storeTx (renameAttribute tx c p q))) [k])
            = {t \<in> set (scopedTriples (txStorage (storeTx tx)) [k]).
                 \<not> prefix [S c, S p] (attribute t)}
              \<union> (\<lambda>t. t\<lparr>attribute := [S c, S q] @ drop 2 (attribute t)\<rparr>)
                ` {t \<in> set (scopedTriples (txStorage (storeTx tx)) [k]).
                     prefix [S c, S p] (attribute t)}"
    using renameAttribute_triples [of tx c p q k]
    by (simp add: rewritten_def renamed_def [abs_def])
next
  fix k t
  assume "p \<noteq> q"
    and "t \<in> set (scopedTriples (txStorage (storeTx (renameAttribute tx c p q))) [k])"
  then show "\<not> prefix [S c, S p] (attribute t)"
    unfolding renameAttribute_triples
    by (auto simp add: rewritten_def prefix_renamed)
next
  fix a v
  assume "(''_schema'', a, v) \<in> set (txMetadata (storeTx tx))
            \<and> prefix [S ''collections'', S c, S ''attributes'', S p] a"
  with assms show "(''_schema'', a[3 := S q], v)
                    \<in> set (txMetadata (storeTx (renameAttribute tx c p q)))"
    by (simp add: renameAttribute_schema_rewritten)
next
  fix a v
  assume "p \<noteq> q"
    and "(''_schema'', a, v) \<in> set (txMetadata (storeTx (renameAttribute tx c p q)))"
  with assms have "\<not> schemaMatch c p (''_schema'', a, v)"
    by (rule renameAttribute_schema_old_gone)
  then show "\<not> prefix [S ''collections'', S c, S ''attributes'', S p] a"
    by (simp add: schemaMatch_def)
qed

theorem renameAttribute_rewrites_triples_and_schema_witness:
  "distinct (map tupleKey (txMetadata (storeTx renameTx)))
   \<and> list_all (\<lambda>t. \<not> prefix [S ''todos'', S ''title''] (attribute t))
        (scopedTriples
           (txStorage (storeTx (renameAttribute renameTx ''todos'' ''title'' ''name'')))
           [''default''])
   \<and> findByAttribute (storeTx (renameAttribute renameTx ''todos'' ''title'' ''name''))
        [S ''todos'', S ''name'']
      = [\<lparr>row_id = ''todos#t1'', attribute = [S ''todos'', S ''name''],
          row_value = JStr ''milk'', timestamp = (2, ''c1''), expired = False\<rparr>]
   \<and> readMetadataTuples (storeTx (renameAttribute renameTx ''todos'' ''title'' ''name''))
        ''_schema'' [S ''collections'', S ''todos'', S ''attributes'']
      = [(''_schema'', [S ''collections'', S ''todos'', S ''attributes'', S ''done'', S ''type''],
          TJson (JStr ''boolean'')),
         (''_schema'', [S ''collections'', S ''todos'', S ''attributes'', S ''name'', S ''type''],
          TJson (JStr ''string''))]
   \<and> DB_fetchById equalityOnly
        (snd (applyRemoteTransaction populatedDB
                [RenameAttributeOperation ''todos'' ''title'' ''name'']))
        ''todos'' ''t1''
      = Inr (Some (JObj [(''done'', JBool False), (''name'', JStr ''milk'')]))"
proof -
  have h: "distinct (map tupleKey (txMetadata (storeTx renameTx)))"
    by code_simp
  have ne: "''title'' \<noteq> ''name''"
    by simp
  from renameAttribute_rewrites_triples_and_schema [OF h, of "''todos''" "''title''" "''name''"] ne
  have "\<forall>t \<in> set (scopedTriples
           (txStorage (storeTx (renameAttribute renameTx ''todos'' ''title'' ''name'')))
           [''default'']). \<not> prefix [S ''todos'', S ''title''] (attribute t)"
    by blast
  then have gone: "list_all (\<lambda>t. \<not> prefix [S ''todos'', S ''title''] (attribute t))
        (scopedTriples
           (txStorage (storeTx (renameAttribute renameTx ''todos'' ''title'' ''name'')))
           [''default''])"
    by (simp add: list_all_iff)
  have there: "findByAttribute (storeTx (renameAttribute renameTx ''todos'' ''title'' ''name''))
        [S ''todos'', S ''name'']
      = [\<lparr>row_id = ''todos#t1'', attribute = [S ''todos'', S ''name''],
          row_value = JStr ''milk'', timestamp = (2, ''c1''), expired = False\<rparr>]"
    by code_simp
  have tuples: "readMetadataTuples (storeTx (renameAttribute renameTx ''todos'' ''title'' ''name''))
        ''_schema'' [S ''collections'', S ''todos'', S ''attributes'']
      = [(''_schema'', [S ''collections'', S ''todos'', S ''attributes'', S ''done'', S ''type''],
          TJson (JStr ''boolean'')),
         (''_schema'', [S ''collections'', S ''todos'', S ''attributes'', S ''name'', S ''type''],
          TJson (JStr ''string''))]"
    by code_simp
  have fetched: "DB_fetchById equalityOnly
        (snd (applyRemoteTransaction populatedDB
                [RenameAttributeOperation ''todos'' ''title'' ''name'']))
        ''todos'' ''t1''
      = Inr (Some (JObj [(''done'', JBool False), (''name'', JStr ''milk'')]))"
    by code_simp
  from h gone there tuples fetched show ?thesis
    by blast
qed

text \<open>
  The claim as the spec states it, "no triple with the old attribute prefix remains",
  fails for a rename of a path to itself: the triples are deleted and inserted again.
\<close>

theorem rename_to_same_path_keeps_triples:
  "findByAttribute (storeTx (renameAttribute renameTx ''todos'' ''title'' ''title''))
        [S ''todos'', S ''title'']
     = [\<lparr>row_id = ''todos#t1'', attribute = [S ''todos'', S ''title''],
         row_value = JStr ''milk'', timestamp = (2, ''c1''), expired = False\<rparr>]"
  by code_simp

section \<open>Symmetry of the schema diff\<close>

lemma diffAttributes_entries:
  "diffAttributes c isNew path old new =
     concat (map (\<lambda>n. attributeEntry (diffAttributes c False (path @ [n])) c isNew (path @ [n])
                        (map_of old n) (map_of new n))
               (remdups (map fst old @ map fst new)))"
  by (subst diffAttributes.simps) (simp add: attributeEntry_def)

lemma diffAttributes_same_aux:
  "new = old \<Longrightarrow> diffAttributes c isNew path old new = []"
proof (induction c isNew path old new rule: diffAttributes.induct)
  case (1 c isNew path old new)
  have "attributeEntry (diffAttributes c False (path @ [n])) c isNew (path @ [n])
          (map_of old n) (map_of new n) = []"
    if n: "n \<in> set (remdups (map fst old @ map fst new))" for n
  proof (cases "map_of old n")
    case None
    with "1.prems" show ?thesis by (simp add: attributeEntry_def)
  next
    case (Some d)
    show ?thesis
    proof (cases d)
      case (RecordOf fs optional)
      with Some "1.prems" n have "diffAttributes c False (path @ [n]) fs fs = []"
        by (intro "1.IH") simp_all
      with Some RecordOf "1.prems" show ?thesis by (simp add: attributeEntry_def)
    qed (use Some "1.prems" in \<open>simp_all add: attributeEntry_def\<close>)
  qed
  then show ?case
    by (subst diffAttributes_entries) (simp add: concat_eq_Nil_conv)
qed

lemma diffAttributes_same: "diffAttributes c isNew path m m = []"
  by (simp add: diffAttributes_same_aux)


lemma attributeEntry_absent:
  "attributeEntry nested c isNew path None None = []"
  "attributeEntry nested c isNew path None (Some d') =
     [CollectionAttribute c Insert path (Some d') None (Some isNew)]"
  "attributeEntry nested c isNew path (Some d) None =
     [CollectionAttribute c Delete path (Some d) None None]"
  by (simp_all add: attributeEntry_def)

lemma attributeEntry_records:
  "attributeEntry nested c isNew path (Some (RecordOf fs optional)) (Some (RecordOf fs' optional')) =
     (if optional = optional' then []
      else [CollectionAttribute c Update path None
              (Some (changesOf (RecordOf fs optional) (RecordOf fs' optional'))) None])
     @ nested fs fs'"
  by (simp add: attributeEntry_def)

lemma attributeEntry_others:
  assumes "\<not> (\<exists>fs optional fs' optional'. d = RecordOf fs optional \<and> d' = RecordOf fs' optional')"
  shows "attributeEntry nested c isNew path (Some d) (Some d') =
     (if d = d' then []
      else [CollectionAttribute c Update path None (Some (changesOf d d')) None])"
  using assms by (cases d; cases d') (simp_all add: attributeEntry_def)

lemma counterpart_insert:
  "counterpart (CollectionAttribute c Insert path m None (Some isNew))
     (CollectionAttribute c Delete path m None None)"
  by (simp add: counterpart_def)

lemma counterpart_delete:
  "counterpart (CollectionAttribute c Delete path m None None)
     (CollectionAttribute c Insert path m None (Some isNew'))"
  by (simp add: counterpart_def)

lemma counterpart_update:
  "counterpart (CollectionAttribute c Update path None (Some (changesOf d d')) None)
     (CollectionAttribute c Update path None (Some (changesOf d' d)) None)"
  unfolding counterpart_def by (simp del: changesOf.simps) blast

lemma attributeEntry_counterpart:
  assumes x: "x \<in> set (attributeEntry nested c isNew path old new)"
    and nested: "\<And>fs optional fs' optional'.
        old = Some (RecordOf fs optional) \<Longrightarrow> new = Some (RecordOf fs' optional')
          \<Longrightarrow> x \<in> set (nested fs fs') \<Longrightarrow> \<exists>y \<in> set (nested' fs' fs). counterpart x y"
  shows "\<exists>y \<in> set (attributeEntry nested' c isNew' path new old). counterpart x y"
proof (cases old)
  case None
  show ?thesis
  proof (cases new)
    case new: None
    with x None show ?thesis by (simp add: attributeEntry_absent)
  next
    case new: (Some d')
    with x None have "x = CollectionAttribute c Insert path (Some d') None (Some isNew)"
      by (simp add: attributeEntry_absent)
    with None new show ?thesis
      by (simp add: attributeEntry_absent counterpart_insert)
  qed
next
  case old: (Some d)
  show ?thesis
  proof (cases new)
    case None
    with x old have "x = CollectionAttribute c Delete path (Some d) None None"
      by (simp add: attributeEntry_absent)
    with None old show ?thesis
      by (simp add: attributeEntry_absent counterpart_delete)
  next
    case new: (Some d')
    show ?thesis
    proof (cases "\<exists>fs optional fs' optional'. d = RecordOf fs optional \<and> d' = RecordOf fs' optional'")
      case False
      then have rev: "\<not> (\<exists>fs optional fs' optional'. d' = RecordOf fs optional \<and> d = RecordOf fs' optional')"
        by blast
      from x old new have "x \<in> set (if d = d' then []
          else [CollectionAttribute c Update path None (Some (changesOf d d')) None])"
        by (simp only: attributeEntry_others [OF False])
      then have ne: "d \<noteq> d'"
        and xeq: "x = CollectionAttribute c Update path None (Some (changesOf d d')) None"
        by (simp_all del: changesOf.simps split: if_splits)
      from ne have "attributeEntry nested' c isNew' path (Some d') (Some d) =
          [CollectionAttribute c Update path None (Some (changesOf d' d)) None]"
        by (simp only: attributeEntry_others [OF rev]) (simp del: changesOf.simps)
      with old new xeq show ?thesis
        by (simp del: changesOf.simps add: counterpart_update)
    next
      case True
      then obtain fs optional fs' optional'
        where d: "d = RecordOf fs optional" and d': "d' = RecordOf fs' optional'"
        by blast
      from x old new d d'
      consider (flag) "optional \<noteq> optional'"
          "x = CollectionAttribute c Update path None (Some (changesOf d d')) None"
        | (inner) "x \<in> set (nested fs fs')"
        by (auto simp del: changesOf.simps simp add: attributeEntry_records split: if_splits)
      then show ?thesis
      proof cases
        case flag
        from flag(1) have "CollectionAttribute c Update path None (Some (changesOf d' d)) None
                \<in> set (attributeEntry nested' c isNew' path (Some d') (Some d))"
          unfolding d d' by (simp del: changesOf.simps add: attributeEntry_records)
        with flag(2) old new show ?thesis
          using counterpart_update by blast
      next
        case inner
        with nested old new d d' obtain y
          where y: "y \<in> set (nested' fs' fs)" and cp: "counterpart x y"
          by blast
        from y have "y \<in> set (attributeEntry nested' c isNew' path (Some d') (Some d))"
          unfolding d d' by (simp del: changesOf.simps add: attributeEntry_records)
        with cp old new show ?thesis by blast
      qed
    qed
  qed
qed

lemma diffAttributes_counterpart:
  "x \<in> set (diffAttributes c isNew path old new)
     \<Longrightarrow> \<exists>y \<in> set (diffAttributes c isNew' path new old). counterpart x y"
proof (induction c isNew path old new arbitrary: isNew' rule: diffAttributes.induct)
  case (1 c isNew path old new)
  from "1.prems" obtain n where n: "n \<in> set (remdups (map fst old @ map fst new))"
    and x: "x \<in> set (attributeEntry (diffAttributes c False (path @ [n])) c isNew (path @ [n])
                       (map_of old n) (map_of new n))"
    by (subst (asm) diffAttributes_entries) auto
  have "\<exists>y \<in> set (attributeEntry (diffAttributes c False (path @ [n])) c isNew' (path @ [n])
                      (map_of new n) (map_of old n)). counterpart x y"
    using x
  proof (rule attributeEntry_counterpart)
    fix fs optional fs' optional'
    assume "map_of old n = Some (RecordOf fs optional)"
      and "map_of new n = Some (RecordOf fs' optional')"
      and "x \<in> set (diffAttributes c False (path @ [n]) fs fs')"
    with n show "\<exists>y \<in> set (diffAttributes c False (path @ [n]) fs' fs). counterpart x y"
      by (intro "1.IH") simp_all
  qed
  then obtain y
    where "y \<in> set (attributeEntry (diffAttributes c False (path @ [n])) c isNew' (path @ [n])
                      (map_of new n) (map_of old n))"
      and "counterpart x y"
    by blast
  moreover from n have "n \<in> set (remdups (map fst new @ map fst old))"
    by auto
  ultimately show ?case
    by (subst diffAttributes_entries) (auto intro!: bexI [of _ y])
qed

lemma counterpart_same:
  "counterpart (CollectionRules c) (CollectionRules c)"
  "counterpart (CollectionPermissions c) (CollectionPermissions c)"
  "counterpart Roles Roles"
  by (simp_all add: counterpart_def)

lemma diffCollection_same: "diffCollection c def def = []"
  by (simp add: diffCollection_def diffAttributes_same)

lemma diffCollection_counterpart:
  assumes "x \<in> set (diffCollection c old new)"
  shows "\<exists>y \<in> set (diffCollection c new old). counterpart x y"
proof -
  from assms consider
      (attribute) "x \<in> set (diffAttributes c (old = None) [] (attributesOf old) (attributesOf new))"
    | (rules) "Option.bind old schema_rules \<noteq> Option.bind new schema_rules" "x = CollectionRules c"
    | (permissions) "Option.bind old schema_permissions \<noteq> Option.bind new schema_permissions"
        "x = CollectionPermissions c"
    by (auto simp add: diffCollection_def split: if_splits)
  then show ?thesis
  proof cases
    case attribute
    then obtain y
      where "y \<in> set (diffAttributes c (new = None) [] (attributesOf new) (attributesOf old))"
        and "counterpart x y"
      using diffAttributes_counterpart by blast
    then show ?thesis
      by (auto simp add: diffCollection_def)
  next
    case rules
    then have "CollectionRules c \<in> set (diffCollection c new old)"
      by (auto simp add: diffCollection_def)
    with rules show ?thesis
      using counterpart_same(1) by blast
  next
    case permissions
    then have "CollectionPermissions c \<in> set (diffCollection c new old)"
      by (auto simp add: diffCollection_def)
    with permissions show ?thesis
      using counterpart_same(2) by blast
  qed
qed

lemma set_diffSchemas:
  "set (diffSchemas old new) =
     (\<Union>c \<in> fst ` set (schema_collections old) \<union> fst ` set (schema_collections new).
        set (diffCollection c (map_of (schema_collections old) c)
               (map_of (schema_collections new) c)))
     \<union> (if schema_roles old = schema_roles new then {} else {Roles})"
  by (auto simp add: diffSchemas_def)

lemma concat_map_Nil: "concat (map (\<lambda>x. []) xs) = []"
  by (induction xs) simp_all

lemma diffSchemas_same: "diffSchemas s s = []"
  by (simp add: diffSchemas_def diffCollection_same concat_map_Nil)

lemma diffSchemas_counterpart:
  assumes "x \<in> set (diffSchemas a b)"
  shows "\<exists>y \<in> set (diffSchemas b a). counterpart x y"
proof -
  from assms consider
      (collection) c where
        "c \<in> fst ` set (schema_collections a) \<union> fst ` set (schema_collections b)"
        "x \<in> set (diffCollection c (map_of (schema_collections a) c)
                     (map_of (schema_collections b) c))"
    | (roles) "schema_roles a \<noteq> schema_roles b" "x = Roles"
    unfolding set_diffSchemas by (auto split: if_splits)
  then show ?thesis
  proof cases
    case collection
    from collection(2) obtain y
      where y: "y \<in> set (diffCollection c (map_of (schema_collections b) c)
                          (map_of (schema_collections a) c))"
        and cp: "counterpart x y"
      using diffCollection_counterpart by blast
    from collection(1)
    have "c \<in> fst ` set (schema_collections b) \<union> fst ` set (schema_collections a)"
      by blast
    with y have "y \<in> set (diffSchemas b a)"
      unfolding set_diffSchemas by blast
    with cp show ?thesis by blast
  next
    case roles
    then have "Roles \<in> set (diffSchemas b a)"
      unfolding set_diffSchemas by simp
    with roles show ?thesis
      using counterpart_same(3) by blast
  qed
qed

text \<open>
  Claim C1. For every pair of schemas \<open>a\<close> and \<open>b\<close>, the diffs
  \<^verbatim>\<open>diffSchemas(a, b)\<close> and \<^verbatim>\<open>diffSchemas(b, a)\<close> mirror each other. Every
  \<^verbatim>\<open>insert\<close> record of the first is a \<^verbatim>\<open>delete\<close> record of the second on the same
  collection and attribute path with the same metadata, and every \<^verbatim>\<open>delete\<close> record
  of the first is an \<^verbatim>\<open>insert\<close> record of the second, again with the same collection,
  path and metadata. For every \<^verbatim>\<open>update\<close> record of the first the second has an
  \<^verbatim>\<open>update\<close> record on the same collection and path, and the changes of the two are
  the differences of the same two descriptors taken in the two orientations. A rules,
  permissions or roles record of the first is one of the second. The diff of a schema
  with itself is empty.
\<close>

theorem diffSchemas_symmetric:
  "diffSchemas s s = []
   \<and> (CollectionAttribute c Insert path m ch isNew \<in> set (diffSchemas a b)
        \<longrightarrow> CollectionAttribute c Delete path m None None \<in> set (diffSchemas b a))
   \<and> (CollectionAttribute c Delete path m ch isNew \<in> set (diffSchemas a b)
        \<longrightarrow> (\<exists>isNew'. CollectionAttribute c Insert path m None (Some isNew')
                          \<in> set (diffSchemas b a)))
   \<and> (CollectionAttribute c Update path m ch isNew \<in> set (diffSchemas a b)
        \<longrightarrow> (\<exists>d d'. ch = Some (changesOf d d')
                     \<and> CollectionAttribute c Update path None (Some (changesOf d' d)) None
                          \<in> set (diffSchemas b a)))
   \<and> (CollectionRules c \<in> set (diffSchemas a b) \<longrightarrow> CollectionRules c \<in> set (diffSchemas b a))
   \<and> (CollectionPermissions c \<in> set (diffSchemas a b)
        \<longrightarrow> CollectionPermissions c \<in> set (diffSchemas b a))
   \<and> (Roles \<in> set (diffSchemas a b) \<longrightarrow> Roles \<in> set (diffSchemas b a))"
proof (intro conjI impI)
  show "diffSchemas s s = []"
    by (rule diffSchemas_same)
next
  assume "CollectionAttribute c Insert path m ch isNew \<in> set (diffSchemas a b)"
  then obtain y where "y \<in> set (diffSchemas b a)"
    and "counterpart (CollectionAttribute c Insert path m ch isNew) y"
    using diffSchemas_counterpart by blast
  then show "CollectionAttribute c Delete path m None None \<in> set (diffSchemas b a)"
    by (simp add: counterpart_def)
next
  assume "CollectionAttribute c Delete path m ch isNew \<in> set (diffSchemas a b)"
  then obtain y where "y \<in> set (diffSchemas b a)"
    and "counterpart (CollectionAttribute c Delete path m ch isNew) y"
    using diffSchemas_counterpart by blast
  then show "\<exists>isNew'. CollectionAttribute c Insert path m None (Some isNew') \<in> set (diffSchemas b a)"
    by (auto simp add: counterpart_def)
next
  assume "CollectionAttribute c Update path m ch isNew \<in> set (diffSchemas a b)"
  then obtain y where "y \<in> set (diffSchemas b a)"
    and "counterpart (CollectionAttribute c Update path m ch isNew) y"
    using diffSchemas_counterpart by blast
  then show "\<exists>d d'. ch = Some (changesOf d d')
      \<and> CollectionAttribute c Update path None (Some (changesOf d' d)) None \<in> set (diffSchemas b a)"
    unfolding counterpart_def by (simp del: changesOf.simps) blast
next
  assume "CollectionRules c \<in> set (diffSchemas a b)"
  then obtain y where "y \<in> set (diffSchemas b a)" and "counterpart (CollectionRules c) y"
    using diffSchemas_counterpart by blast
  then show "CollectionRules c \<in> set (diffSchemas b a)"
    by (simp add: counterpart_def)
next
  assume "CollectionPermissions c \<in> set (diffSchemas a b)"
  then obtain y where "y \<in> set (diffSchemas b a)" and "counterpart (CollectionPermissions c) y"
    using diffSchemas_counterpart by blast
  then show "CollectionPermissions c \<in> set (diffSchemas b a)"
    by (simp add: counterpart_def)
next
  assume "Roles \<in> set (diffSchemas a b)"
  then obtain y where "y \<in> set (diffSchemas b a)" and "counterpart Roles y"
    using diffSchemas_counterpart by blast
  then show "Roles \<in> set (diffSchemas b a)"
    by (simp add: counterpart_def)
qed

theorem diffSchemas_symmetric_witness:
  "CollectionAttribute ''first'' Insert [''extra''] (Some stringDescriptor) None (Some False)
      \<in> set (diffSchemas schemaC schemaD)
   \<and> CollectionAttribute ''first'' Delete [''extra''] (Some stringDescriptor) None None
      \<in> set (diffSchemas schemaD schemaC)
   \<and> CollectionAttribute ''first'' Delete [''note''] (Some stringDescriptor) None None
      \<in> set (diffSchemas schemaC schemaD)
   \<and> (\<exists>isNew'. CollectionAttribute ''first'' Insert [''note''] (Some stringDescriptor) None
                    (Some isNew')
                  \<in> set (diffSchemas schemaD schemaC))
   \<and> CollectionAttribute ''first'' Update [''title''] None
        (Some (Changes None (Some True) None None None None)) None
      \<in> set (diffSchemas schemaC schemaD)
   \<and> (\<exists>d d'. Some (Changes None (Some True) None None None None) = Some (changesOf d d')
         \<and> CollectionAttribute ''first'' Update [''title''] None (Some (changesOf d' d)) None
            \<in> set (diffSchemas schemaD schemaC))
   \<and> {CollectionRules ''first'', CollectionPermissions ''first'', Roles}
      \<subseteq> set (diffSchemas schemaC schemaD) \<inter> set (diffSchemas schemaD schemaC)
   \<and> diffSchemas schemaD schemaC =
       [Roles, CollectionPermissions ''first'', CollectionRules ''first'',
        CollectionAttribute ''first'' Delete [''address'', ''zip''] (Some stringDescriptor) None None,
        CollectionAttribute ''first'' Delete [''extra''] (Some stringDescriptor) None None,
        CollectionAttribute ''first'' Insert [''note''] (Some stringDescriptor) None (Some False),
        CollectionAttribute ''first'' Update [''tags''] None
          (Some (Changes None None (Some (Some False)) None None
                   (Some (Changes (Some (LeafName StringType)) None None None None None))))
          None,
        CollectionAttribute ''first'' Update [''title''] None
          (Some (Changes None (Some False) None None None None)) None]
   \<and> diffSchemas schemaA schemaB =
       [CollectionAttribute ''second'' Insert [''id''] (Some idDescriptor) None (Some True)]
   \<and> diffSchemas schemaB schemaA =
       [CollectionAttribute ''second'' Delete [''id''] (Some idDescriptor) None None]
   \<and> diffSchemas schemaD schemaD = []"
proof -
  have inserted: "CollectionAttribute ''first'' Insert [''extra''] (Some stringDescriptor) None
                    (Some False)
                  \<in> set (diffSchemas schemaC schemaD)"
    by code_simp
  have deleted: "CollectionAttribute ''first'' Delete [''note''] (Some stringDescriptor) None None
                  \<in> set (diffSchemas schemaC schemaD)"
    by code_simp
  have updated: "CollectionAttribute ''first'' Update [''title''] None
                   (Some (Changes None (Some True) None None None None)) None
                 \<in> set (diffSchemas schemaC schemaD)"
    by code_simp
  have blobs: "CollectionRules ''first'' \<in> set (diffSchemas schemaC schemaD)"
    "CollectionPermissions ''first'' \<in> set (diffSchemas schemaC schemaD)"
    "Roles \<in> set (diffSchemas schemaC schemaD)"
    by code_simp+
  have reverse: "diffSchemas schemaD schemaC =
       [Roles, CollectionPermissions ''first'', CollectionRules ''first'',
        CollectionAttribute ''first'' Delete [''address'', ''zip''] (Some stringDescriptor) None None,
        CollectionAttribute ''first'' Delete [''extra''] (Some stringDescriptor) None None,
        CollectionAttribute ''first'' Insert [''note''] (Some stringDescriptor) None (Some False),
        CollectionAttribute ''first'' Update [''tags''] None
          (Some (Changes None None (Some (Some False)) None None
                   (Some (Changes (Some (LeafName StringType)) None None None None None))))
          None,
        CollectionAttribute ''first'' Update [''title''] None
          (Some (Changes None (Some False) None None None None)) None]"
    by code_simp
  have added: "diffSchemas schemaA schemaB =
       [CollectionAttribute ''second'' Insert [''id''] (Some idDescriptor) None (Some True)]"
    by code_simp
  have removed: "diffSchemas schemaB schemaA =
       [CollectionAttribute ''second'' Delete [''id''] (Some idDescriptor) None None]"
    by code_simp
  note sym = diffSchemas_symmetric [where a = schemaC and b = schemaD and c = "''first''"]
  from sym [where path = "[''extra'']" and m = "Some stringDescriptor" and ch = None
              and isNew = "Some False"] inserted blobs
  have one: "CollectionAttribute ''first'' Delete [''extra''] (Some stringDescriptor) None None
               \<in> set (diffSchemas schemaD schemaC)"
    and three: "CollectionRules ''first'' \<in> set (diffSchemas schemaD schemaC)"
      "CollectionPermissions ''first'' \<in> set (diffSchemas schemaD schemaC)"
      "Roles \<in> set (diffSchemas schemaD schemaC)"
    and same: "diffSchemas schemaD schemaD = []"
    by blast+
  from sym [where path = "[''note'']" and m = "Some stringDescriptor" and ch = None
              and isNew = None] deleted
  have two: "\<exists>isNew'. CollectionAttribute ''first'' Insert [''note''] (Some stringDescriptor) None
                    (Some isNew')
                  \<in> set (diffSchemas schemaD schemaC)"
    by blast
  from sym [where path = "[''title'']" and m = None
              and ch = "Some (Changes None (Some True) None None None None)"
              and isNew = None] updated
  have four: "\<exists>d d'. Some (Changes None (Some True) None None None None) = Some (changesOf d d')
         \<and> CollectionAttribute ''first'' Update [''title''] None (Some (changesOf d' d)) None
            \<in> set (diffSchemas schemaD schemaC)"
    by blast
  from inserted deleted updated blobs one two three four same added removed
  show ?thesis
    unfolding reverse [symmetric] by (intro conjI) (assumption | simp only: insert_subset empty_subsetI Int_iff simp_thms)+
qed

end
